theory Spec2Isabelle
  imports Complex_Main "HOL-Library.AList" "HOL-Library.Multiset"
begin

section \<open>Python values\<close>

subsection \<open>Strings\<close>

text \<open>
  A Python \<^verbatim>\<open>str\<close> is a sequence of Unicode code points, so it is modelled as a list of
  natural numbers. \<open>ustr\<close> turns an ASCII literal of the source into that list.
\<close>

type_synonym pystr = "nat list"

definition ustr :: "string \<Rightarrow> pystr" where
  "ustr s = map of_char s"

text \<open>
  \<^verbatim>\<open>str.isspace\<close> of one character: the code points CPython classifies as whitespace.
\<close>

definition py_isspace :: "nat \<Rightarrow> bool" where
  "py_isspace n \<longleftrightarrow>
     (9 \<le> n \<and> n \<le> 13) \<or> (28 \<le> n \<and> n \<le> 32) \<or> n = 133 \<or> n = 160 \<or> n = 5760 \<or>
     (8192 \<le> n \<and> n \<le> 8202) \<or> n = 8232 \<or> n = 8233 \<or> n = 8239 \<or> n = 8287 \<or> n = 12288"

text \<open>\<^verbatim>\<open>s.strip()\<close>: leading and trailing whitespace removed.\<close>

definition py_strip :: "pystr \<Rightarrow> pystr" where
  "py_strip s = rev (dropWhile py_isspace (rev (dropWhile py_isspace s)))"

text \<open>\<^verbatim>\<open>s.startswith(p)\<close>.\<close>

definition py_startswith :: "pystr \<Rightarrow> pystr \<Rightarrow> bool" where
  "py_startswith s p \<longleftrightarrow> take (length p) s = p"

text \<open>
  \<^verbatim>\<open>s.split(sep)\<close> for a non-empty separator: the pieces between the leftmost
  non-overlapping occurrences of \<open>sep\<close>, scanning from the left. The accumulator holds the
  current piece reversed. (Python raises \<^verbatim>\<open>ValueError\<close> on an empty separator; the source
  only passes the literals \<^verbatim>\<open>"|"\<close> and \<^verbatim>\<open>"Bearer "\<close>.)
\<close>

function py_split_from :: "pystr \<Rightarrow> pystr \<Rightarrow> pystr \<Rightarrow> pystr list" where
  "py_split_from sep acc [] = [rev acc]"
| "py_split_from sep acc (c # cs) =
     (if sep \<noteq> [] \<and> take (length sep) (c # cs) = sep
      then rev acc # py_split_from sep [] (drop (length sep) (c # cs))
      else py_split_from sep (c # acc) cs)"
  by pat_completeness auto
termination
  by (relation "measure (\<lambda>(sep, acc, s). length s)") auto

definition py_split :: "pystr \<Rightarrow> pystr \<Rightarrow> pystr list" where
  "py_split s sep = py_split_from sep [] s"

text \<open>
  \<^verbatim>\<open>s.lower()\<close>. On a string of ASCII characters it maps the letters A to Z to a to z
  and leaves the rest. On any other string it depends on the Unicode case tables, which are
  no part of the repository: there it is the parameter \<open>unicode_lower\<close>.
\<close>

definition is_ascii :: "pystr \<Rightarrow> bool" where
  "is_ascii s \<longleftrightarrow> list_all (\<lambda>c. c < 128) s"

definition ascii_lower :: "pystr \<Rightarrow> pystr" where
  "ascii_lower s = map (\<lambda>n. if 65 \<le> n \<and> n \<le> 90 then n + 32 else n) s"

definition str_lower :: "(pystr \<Rightarrow> pystr) \<Rightarrow> pystr \<Rightarrow> pystr" where
  "str_lower unicode_lower s = (if is_ascii s then ascii_lower s else unicode_lower s)"

subsection \<open>Exceptions\<close>

text \<open>
  The exceptions the modelled code can meet, each with its message \<^verbatim>\<open>str(e)\<close>; for a
  \<^verbatim>\<open>KeyError\<close> that is the key as \<^verbatim>\<open>repr\<close> prints it. \<open>RemoteError\<close> stands for
  whatever a client library raises (an HTTP error status, a transport failure, a failed
  token refresh). \<open>IntegrityError\<close> and \<open>OperationalError\<close> are what the database
  answers to a statement it refuses; \<open>ValueError\<close> and \<open>UnicodeEncodeError\<close> are also
  what the database driver raises on a parameter it cannot send.
\<close>

datatype exn =
    KeyError pystr
  | IndexError pystr
  | TypeError pystr
  | AttributeError pystr
  | ValueError pystr
  | UnicodeEncodeError pystr
  | IntegrityError pystr
  | OperationalError pystr
  | RemoteError pystr

fun str_exn :: "exn \<Rightarrow> pystr" where
  "str_exn (KeyError m) = m"
| "str_exn (IndexError m) = m"
| "str_exn (TypeError m) = m"
| "str_exn (AttributeError m) = m"
| "str_exn (ValueError m) = m"
| "str_exn (UnicodeEncodeError m) = m"
| "str_exn (IntegrityError m) = m"
| "str_exn (OperationalError m) = m"
| "str_exn (RemoteError m) = m"

subsection \<open>JSON documents\<close>

text \<open>
  What \<^verbatim>\<open>response.json()\<close> and the Google client return: \<^verbatim>\<open>None\<close>, booleans, integers,
  floats (as the rational they denote), strings, lists and dicts. A dict is kept as the
  list of its items in insertion order (keys distinct); lookup is \<open>map_of\<close> and item
  assignment is \<open>AList.update\<close>, which replaces the value of a present key in place and
  appends an absent one.
\<close>

datatype json =
    JNull
  | JBool bool
  | JNum int
  | JFloat rat
  | JStr pystr
  | JArr "json list"
  | JObj "(pystr \<times> json) list"

text \<open>\<^verbatim>\<open>type(x).__name__\<close>, as the messages of the interpreter quote it.\<close>

fun type_name :: "json \<Rightarrow> pystr" where
  "type_name JNull = ustr ''NoneType''"
| "type_name (JBool b) = ustr ''bool''"
| "type_name (JNum n) = ustr ''int''"
| "type_name (JFloat q) = ustr ''float''"
| "type_name (JStr s) = ustr ''str''"
| "type_name (JArr xs) = ustr ''list''"
| "type_name (JObj kvs) = ustr ''dict''"

definition not_subscriptable :: "json \<Rightarrow> exn" where
  "not_subscriptable j = TypeError ([39] @ type_name j @ [39] @ ustr '' object is not subscriptable'')"

definition no_attribute :: "json \<Rightarrow> pystr \<Rightarrow> exn" where
  "no_attribute j name =
     AttributeError ([39] @ type_name j @ [39] @ ustr '' object has no attribute '' @ [39] @ name @ [39])"

text \<open>Truth value of an object, as \<^verbatim>\<open>if not x\<close> tests it.\<close>

fun truthy :: "json \<Rightarrow> bool" where
  "truthy JNull = False"
| "truthy (JBool b) = b"
| "truthy (JNum n) = (n \<noteq> 0)"
| "truthy (JFloat q) = (q \<noteq> 0)"
| "truthy (JStr s) = (s \<noteq> [])"
| "truthy (JArr xs) = (xs \<noteq> [])"
| "truthy (JObj kvs) = (kvs \<noteq> [])"

text \<open>\<^verbatim>\<open>x[k]\<close> with a string key.\<close>

fun getitem :: "json \<Rightarrow> pystr \<Rightarrow> exn + json" where
  "getitem (JObj kvs) k =
     (case map_of kvs k of None \<Rightarrow> Inl (KeyError ([39] @ k @ [39])) | Some v \<Rightarrow> Inr v)"
| "getitem (JArr xs) k = Inl (TypeError (ustr ''list indices must be integers or slices, not str''))"
| "getitem (JStr s) k =
     Inl (TypeError (ustr ''string indices must be integers, not '' @ [39] @ ustr ''str'' @ [39]))"
| "getitem j k = Inl (not_subscriptable j)"

text \<open>\<^verbatim>\<open>x[0]\<close>. A dict parsed from JSON has string keys only, so the key \<open>0\<close> is absent.\<close>

fun index0 :: "json \<Rightarrow> exn + json" where
  "index0 (JArr []) = Inl (IndexError (ustr ''list index out of range''))"
| "index0 (JArr (x # xs)) = Inr x"
| "index0 (JStr []) = Inl (IndexError (ustr ''string index out of range''))"
| "index0 (JStr (c # cs)) = Inr (JStr [c])"
| "index0 (JObj kvs) = Inl (KeyError (ustr ''0''))"
| "index0 j = Inl (not_subscriptable j)"

text \<open>\<^verbatim>\<open>x.get(k, default)\<close>: only a dict has the method.\<close>

fun get_default :: "json \<Rightarrow> pystr \<Rightarrow> json \<Rightarrow> exn + json" where
  "get_default (JObj kvs) k d = (case map_of kvs k of None \<Rightarrow> Inr d | Some v \<Rightarrow> Inr v)"
| "get_default j k d = Inl (no_attribute j (ustr ''get''))"

text \<open>\<^verbatim>\<open>x[k] = v\<close> with a string key.\<close>

fun setitem :: "json \<Rightarrow> pystr \<Rightarrow> json \<Rightarrow> exn + json" where
  "setitem (JObj kvs) k v = Inr (JObj (AList.update k v kvs))"
| "setitem (JArr xs) k v = Inl (TypeError (ustr ''list indices must be integers or slices, not str''))"
| "setitem j k v =
     Inl (TypeError ([39] @ type_name j @ [39] @ ustr '' object does not support item assignment''))"

text \<open>\<^verbatim>\<open>x.strip()\<close>: only a string has the method.\<close>

fun strip_method :: "json \<Rightarrow> exn + pystr" where
  "strip_method (JStr s) = Inr (py_strip s)"
| "strip_method j = Inl (no_attribute j (ustr ''strip''))"

section \<open>ai_service.py\<close>

text \<open>
  The request sent to the completion API. Everything but the key and the prompt is a
  constant of the source.
\<close>

record groq_request =
  req_url :: pystr
  req_authorization :: pystr
  req_model :: pystr
  req_prompt :: pystr
  req_temperature :: pystr
  req_max_tokens :: nat

text \<open>
  The completion API is a parameter: \<open>groq req\<close> is what the three library calls
  \<^verbatim>\<open>client.post(...)\<close>, \<^verbatim>\<open>response.raise_for_status()\<close> and \<^verbatim>\<open>response.json()\<close> give
  together, the parsed body or the exception one of them raised.
\<close>

type_synonym groq_api = "groq_request \<Rightarrow> exn + json"

definition build_prompt :: "pystr \<Rightarrow> pystr" where
  "build_prompt current_title =
     ustr ''You are a YouTube growth expert. '' @
     ustr ''Give me exactly 3 viral, click-worthy YouTube titles for a video currently titled: ''
       @ [39] @ current_title @ [39] @ ustr ''. '' @
     ustr ''Return ONLY the 3 titles separated by a pipe character | with no extra text, numbering, or explanation. '' @
     ustr ''Example format: Title One | Title Two | Title Three''"

definition build_request :: "pystr \<Rightarrow> pystr \<Rightarrow> groq_request" where
  "build_request api_key current_title =
     \<lparr> req_url = ustr ''https://api.groq.com/openai/v1/chat/completions'',
       req_authorization = ustr ''Bearer '' @ api_key,
       req_model = ustr ''llama-3.3-70b-versatile'',
       req_prompt = build_prompt current_title,
       req_temperature = ustr ''0.9'',
       req_max_tokens = 200 \<rparr>"

text \<open>The three instructional strings returned when the key is missing.\<close>

definition missing_key_titles :: "pystr list" where
  "missing_key_titles =
     [ustr ''Error: GROQ_API_KEY is missing from .env'',
      ustr ''Get a free key at console.groq.com'',
      ustr ''Then restart the server'']"

text \<open>
  The fallback template used when the model ignores the pipe format. The dash of the
  third title is the code point U+2014.
\<close>

definition fallback_titles :: "pystr \<Rightarrow> pystr list" where
  "fallback_titles current_title =
     [ustr ''You Won'' @ [39] @ ustr ''t Believe What Happened with '' @ current_title,
      ustr ''The Truth About '' @ current_title @ ustr '' Nobody Tells You'',
      ustr ''I Tried '' @ current_title @ ustr '' for 30 Days '' @ [8212] @
        ustr '' Here'' @ [39] @ ustr ''s What Happened'']"

definition error_titles :: "exn \<Rightarrow> pystr list" where
  "error_titles e =
     [ustr ''Error: '' @ take 60 (str_exn e),
      ustr ''Check your GROQ_API_KEY in .env'',
      ustr ''Check server logs for details'']"

text \<open>
  \<^verbatim>\<open>data["choices"][0]["message"]["content"].strip()\<close>: any step can raise.
\<close>

definition completion_text :: "json \<Rightarrow> exn + pystr" where
  "completion_text data =
     (case getitem data (ustr ''choices'') of
        Inl e \<Rightarrow> Inl e
      | Inr choices \<Rightarrow>
          (case index0 choices of
             Inl e \<Rightarrow> Inl e
           | Inr choice \<Rightarrow>
               (case getitem choice (ustr ''message'') of
                  Inl e \<Rightarrow> Inl e
                | Inr message \<Rightarrow>
                    (case getitem message (ustr ''content'') of
                       Inl e \<Rightarrow> Inl e
                     | Inr content \<Rightarrow> strip_method content))))"

text \<open>The parsed candidates: \<^verbatim>\<open>[t.strip() for t in raw_text.split("|")]\<close>.\<close>

definition parse_titles :: "pystr \<Rightarrow> pystr list" where
  "parse_titles raw_text = map py_strip (py_split raw_text (ustr ''|''))"

text \<open>
  The body of the \<^verbatim>\<open>try\<close> block: the request, the extraction of the text, the parse and
  the fallback test. The second component is the list of requests sent.
\<close>

definition request_titles :: "groq_api \<Rightarrow> pystr \<Rightarrow> pystr \<Rightarrow> (exn + pystr list) \<times> groq_request list" where
  "request_titles groq api_key current_title =
     (let req = build_request api_key current_title;
          outcome =
            (case groq req of
               Inl e \<Rightarrow> Inl e
             | Inr data \<Rightarrow>
                 (case completion_text data of
                    Inl e \<Rightarrow> Inl e
                  | Inr raw_text \<Rightarrow>
                      (let titles = parse_titles raw_text
                       in if length titles < 3 then Inr (fallback_titles current_title)
                          else Inr (take 3 titles))))
      in (outcome, [req]))"

text \<open>
  \<^verbatim>\<open>generate_viral_titles\<close>. \<open>api_key\<close> is \<^verbatim>\<open>os.getenv("GROQ_API_KEY")\<close>; \<^verbatim>\<open>not api_key\<close>
  holds for \<^verbatim>\<open>None\<close> and for the empty string. The result is \<open>Inl e\<close> if an exception
  leaves the function, and the second component lists the requests sent.
\<close>

definition generate_viral_titles ::
  "groq_api \<Rightarrow> pystr option \<Rightarrow> pystr \<Rightarrow> (exn + pystr list) \<times> groq_request list" where
  "generate_viral_titles groq api_key current_title =
     (case api_key of
        None \<Rightarrow> (Inr missing_key_titles, [])
      | Some key \<Rightarrow>
          if key = [] then (Inr missing_key_titles, [])
          else (case request_titles groq key current_title of
                  (Inl e, sent) \<Rightarrow> (Inr (error_titles e), sent)
                | (Inr titles, sent) \<Rightarrow> (Inr titles, sent)))"

section \<open>youtube_api.py\<close>

text \<open>
  \<^verbatim>\<open>google.oauth2.credentials.Credentials\<close>, with the attributes the code reads.
\<close>

record Credentials =
  creds_token :: pystr
  creds_refresh_token :: "pystr option"
  creds_token_uri :: pystr
  creds_client_id :: pystr
  creds_client_secret :: pystr
  creds_scopes :: "pystr list option"

text \<open>
  The requests the code sends to the video platform, with the keyword arguments of the
  source: \<^verbatim>\<open>videos().list(part, id)\<close>, \<^verbatim>\<open>videos().update(part, body)\<close>,
  \<^verbatim>\<open>commentThreads().list(part, videoId, maxResults, textFormat)\<close>,
  \<^verbatim>\<open>commentThreads().insert(part, body)\<close>, \<^verbatim>\<open>comments().insert(part, body)\<close> and
  \<^verbatim>\<open>comments().delete(id)\<close>.
\<close>

datatype yt_call =
    VideosList pystr pystr
  | VideosUpdate pystr json
  | CommentThreadsList pystr pystr nat pystr
  | CommentThreadsInsert pystr json
  | CommentsInsert pystr json
  | CommentsDelete pystr

text \<open>
  The client object \<^verbatim>\<open>youtube\<close>: for each resource method, what \<^verbatim>\<open>.execute()\<close> gives, a
  response or the exception raised. The video endpoints return JSON documents, which the
  code inspects key by key. A successful insert returns the created resource, of which the
  code reads the id only: \<^verbatim>\<open>response["snippet"]["topLevelComment"]["id"]\<close> of a comment
  thread, \<^verbatim>\<open>response["id"]\<close> of a comment. The response of a delete is not read.
\<close>

record youtube =
  videos_list :: "pystr \<Rightarrow> pystr \<Rightarrow> exn + json"
  videos_update :: "pystr \<Rightarrow> json \<Rightarrow> exn + json"
  commentThreads_list :: "pystr \<Rightarrow> pystr \<Rightarrow> nat \<Rightarrow> pystr \<Rightarrow> exn + json"
  commentThreads_insert :: "pystr \<Rightarrow> json \<Rightarrow> exn + pystr"
  comments_insert :: "pystr \<Rightarrow> json \<Rightarrow> exn + pystr"
  comments_delete :: "pystr \<Rightarrow> exn + unit"

text \<open>
  \<^verbatim>\<open>get_youtube_client\<close>: the session dict becomes a \<^verbatim>\<open>Credentials\<close> object, and
  \<^verbatim>\<open>build("youtube", "v3", credentials=creds)\<close> of the Google library, a parameter here,
  makes the client. No request is sent.
\<close>

definition get_youtube_client :: "(Credentials \<Rightarrow> youtube) \<Rightarrow> Credentials \<Rightarrow> youtube" where
  "get_youtube_client build session = build session"

text \<open>
  Each function below returns its result, or the exception that left it, together with the
  requests it sent, in order.
\<close>

definition fetch_video_details :: "youtube \<Rightarrow> pystr \<Rightarrow> (exn + json) \<times> yt_call list" where
  "fetch_video_details yt video_id =
     (let part = ustr ''snippet,statistics'';
          outcome =
            (case videos_list yt part video_id of
               Inl e \<Rightarrow> Inl e
             | Inr response \<Rightarrow>
                 (case get_default response (ustr ''items'') (JArr []) of
                    Inl e \<Rightarrow> Inl e
                  | Inr items \<Rightarrow> if \<not> truthy items then Inr JNull else index0 items))
      in (outcome, [VideosList part video_id]))"

text \<open>
  \<^verbatim>\<open>update_video_info\<close>. The update request is built, and sent, only after the fetch and
  the two item assignments went through.
\<close>

definition update_video_info ::
  "youtube \<Rightarrow> pystr \<Rightarrow> pystr \<Rightarrow> pystr \<Rightarrow> (exn + json) \<times> yt_call list" where
  "update_video_info yt video_id new_title description =
     (let part = ustr ''snippet'';
          fetch = VideosList part video_id
      in case videos_list yt part video_id of
           Inl e \<Rightarrow> (Inl e, [fetch])
         | Inr video_data \<Rightarrow>
             (case get_default video_data (ustr ''items'') (JArr []) of
                Inl e \<Rightarrow> (Inl e, [fetch])
              | Inr items \<Rightarrow>
                  if \<not> truthy items
                  then (Inl (ValueError (ustr ''Video '' @ video_id @ ustr '' not found on YouTube.'')),
                        [fetch])
                  else
                    (case index0 items of
                       Inl e \<Rightarrow> (Inl e, [fetch])
                     | Inr item \<Rightarrow>
                         (case getitem item (ustr ''snippet'') of
                            Inl e \<Rightarrow> (Inl e, [fetch])
                          | Inr snippet \<Rightarrow>
                              (case setitem snippet (ustr ''title'') (JStr new_title) of
                                 Inl e \<Rightarrow> (Inl e, [fetch])
                               | Inr snippet1 \<Rightarrow>
                                   (case setitem snippet1 (ustr ''description'') (JStr description) of
                                      Inl e \<Rightarrow> (Inl e, [fetch])
                                    | Inr snippet2 \<Rightarrow>
                                        (let body = JObj [(ustr ''id'', JStr video_id),
                                                          (ustr ''snippet'', snippet2)]
                                         in (videos_update yt part body,
                                             [fetch, VideosUpdate part body]))))))))"

definition fetch_video_comments :: "youtube \<Rightarrow> pystr \<Rightarrow> (exn + json) \<times> yt_call list" where
  "fetch_video_comments yt video_id =
     (let part = ustr ''snippet,replies'';
          max_results = 50;
          text_format = ustr ''plainText'';
          outcome =
            (case commentThreads_list yt part video_id max_results text_format of
               Inl e \<Rightarrow> Inl e
             | Inr response \<Rightarrow> get_default response (ustr ''items'') (JArr []))
      in (outcome, [CommentThreadsList part video_id max_results text_format]))"

definition post_comment :: "youtube \<Rightarrow> pystr \<Rightarrow> pystr \<Rightarrow> (exn + pystr) \<times> yt_call list" where
  "post_comment yt video_id comment =
     (let part = ustr ''snippet'';
          body = JObj [(ustr ''snippet'',
                   JObj [(ustr ''videoId'', JStr video_id),
                         (ustr ''topLevelComment'',
                            JObj [(ustr ''snippet'', JObj [(ustr ''textOriginal'', JStr comment)])])])]
      in (commentThreads_insert yt part body, [CommentThreadsInsert part body]))"

definition reply_to_comment :: "youtube \<Rightarrow> pystr \<Rightarrow> pystr \<Rightarrow> (exn + pystr) \<times> yt_call list" where
  "reply_to_comment yt parent_id comment =
     (let part = ustr ''snippet'';
          body = JObj [(ustr ''snippet'',
                   JObj [(ustr ''parentId'', JStr parent_id),
                         (ustr ''textOriginal'', JStr comment)])]
      in (comments_insert yt part body, [CommentsInsert part body]))"

definition delete_comment :: "youtube \<Rightarrow> pystr \<Rightarrow> (exn + unit) \<times> yt_call list" where
  "delete_comment yt yt_comment_id =
     (comments_delete yt yt_comment_id, [CommentsDelete yt_comment_id])"

section \<open>models.py\<close>

text \<open>
  One record per mapped class; a column name is prefixed with its class where two classes
  share it. A nullable column that the code leaves empty is an \<open>option\<close>. Primary keys are
  integers, timestamps are readings of the database clock.
\<close>

record Note =
  note_id :: int
  note_video_id :: pystr
  note_title :: "pystr option"
  note_content :: "pystr option"
  note_tags :: "pystr list option"
  note_created_at :: nat
  note_updated_at :: "nat option"

record EventLog =
  log_id :: int
  log_action :: pystr
  log_details :: pystr
  log_timestamp :: nat

record UserSession =
  session_id :: int
  access_token :: pystr
  refresh_token :: "pystr option"
  token_uri :: pystr
  client_id :: pystr
  client_secret :: pystr
  scopes :: "pystr list"
  session_created_at :: nat

record Comment =
  comment_id :: int
  comment_video_id :: pystr
  youtube_comment_id :: pystr
  parent_youtube_id :: "pystr option"
  comment_text :: pystr
  comment_created_at :: nat

text \<open>
  The database: the four tables in insertion order, the sequence behind each primary key,
  and the clock that \<^verbatim>\<open>func.now()\<close> reads.
\<close>

record database =
  notes_table :: "Note list"
  logs_table :: "EventLog list"
  user_sessions_table :: "UserSession list"
  comments_table :: "Comment list"
  notes_seq :: int
  logs_seq :: int
  user_sessions_seq :: int
  comments_seq :: int
  now :: nat

text \<open>
  \<^verbatim>\<open>db.add(row); db.commit()\<close> for the log and for a session. The row gets the next
  value of the sequence and the server defaults. \<^verbatim>\<open>unique=True\<close> on
  \<^verbatim>\<open>access_token\<close> makes the commit raise when the value is on file already.
\<close>

definition insert_log :: "database \<Rightarrow> pystr \<Rightarrow> pystr \<Rightarrow> database" where
  "insert_log db act det =
     db \<lparr> logs_table := logs_table db @
            [\<lparr> log_id = logs_seq db, log_action = act, log_details = det,
               log_timestamp = now db \<rparr>],
          logs_seq := logs_seq db + 1 \<rparr>"

definition insert_user_session :: "database \<Rightarrow> Credentials \<Rightarrow> exn + database" where
  "insert_user_session db creds =
     (if creds_token creds \<in> set (map access_token (user_sessions_table db))
      then Inl (IntegrityError (ustr ''duplicate key value violates unique constraint''))
      else Inr (db \<lparr> user_sessions_table := user_sessions_table db @
                       [\<lparr> session_id = user_sessions_seq db,
                          access_token = creds_token creds,
                          refresh_token = creds_refresh_token creds,
                          token_uri = creds_token_uri creds,
                          client_id = creds_client_id creds,
                          client_secret = creds_client_secret creds,
                          scopes = (case creds_scopes creds of None \<Rightarrow> [] | Some sc \<Rightarrow> sc),
                          session_created_at = now db \<rparr>],
                     user_sessions_seq := user_sessions_seq db + 1 \<rparr>))"

text \<open>
  What the database (PostgreSQL, through its driver) does with the strings of a statement.
  The driver sends a string encoded in UTF-8 and raises before anything is sent when a
  parameter cannot be encoded (a lone surrogate) or holds the character U+0000; the
  parameters are tried in the order of the statement. The server refuses a row whose value
  in an indexed column is too long for an index entry; that bound depends on how the
  server compresses the value and is the parameter \<open>fits_index\<close>. A row that the server
  refuses has drawn its id from the sequence all the same.
\<close>

definition storable :: "pystr \<Rightarrow> bool" where
  "storable s \<longleftrightarrow> list_all (\<lambda>c. c \<noteq> 0 \<and> \<not> (55296 \<le> c \<and> c \<le> 57343)) s"

definition driver_error :: "pystr \<Rightarrow> exn" where
  "driver_error s =
     (if list_ex (\<lambda>c. 55296 \<le> c \<and> c \<le> 57343) s
      then UnicodeEncodeError (ustr ''surrogates not allowed'')
      else ValueError (ustr ''A string literal cannot contain NUL (0x00) characters.''))"

definition driver_refusal :: "pystr list \<Rightarrow> exn option" where
  "driver_refusal params = map_option driver_error (find (\<lambda>s. \<not> storable s) params)"

definition index_error :: exn where
  "index_error = OperationalError (ustr ''index row size exceeds btree maximum'')"

text \<open>
  The insert of \<^verbatim>\<open>add_comment\<close>. The statement carries the video, the remote id, the
  parent if there is one, and the text; \<^verbatim>\<open>video_id\<close> and \<^verbatim>\<open>youtube_comment_id\<close> are
  indexed, the latter uniquely. The result is the row as \<^verbatim>\<open>db.refresh\<close> reads it back, or
  the exception the commit raised, and the database afterwards.
\<close>

definition comment_params :: "pystr \<Rightarrow> pystr \<Rightarrow> pystr option \<Rightarrow> pystr \<Rightarrow> pystr list" where
  "comment_params video_id yt_comment_id parent_id comment =
     [video_id, yt_comment_id] @ (case parent_id of None \<Rightarrow> [] | Some p \<Rightarrow> [p]) @ [comment]"

definition insert_comment ::
  "(pystr \<Rightarrow> bool) \<Rightarrow> database \<Rightarrow> pystr \<Rightarrow> pystr \<Rightarrow> pystr option \<Rightarrow> pystr \<Rightarrow>
     (exn + Comment) \<times> database" where
  "insert_comment fits_index db video_id yt_comment_id parent_id comment =
     (case driver_refusal (comment_params video_id yt_comment_id parent_id comment) of
        Some e \<Rightarrow> (Inl e, db)
      | None \<Rightarrow>
          (let db1 = db \<lparr> comments_seq := comments_seq db + 1 \<rparr>;
               new_comment =
                 \<lparr> comment_id = comments_seq db,
                   comment_video_id = video_id,
                   youtube_comment_id = yt_comment_id,
                   parent_youtube_id = parent_id,
                   comment_text = comment,
                   comment_created_at = now db \<rparr>
           in if \<not> fits_index video_id \<or> \<not> fits_index yt_comment_id
              then (Inl index_error, db1)
              else if yt_comment_id \<in> set (map youtube_comment_id (comments_table db))
              then (Inl (IntegrityError (ustr ''duplicate key value violates unique constraint'')),
                    db1)
              else (Inr new_comment, db1 \<lparr> comments_table := comments_table db @ [new_comment] \<rparr>)))"

text \<open>
  \<^verbatim>\<open>.first()\<close> on a query without \<^verbatim>\<open>ORDER BY\<close>: the database answers with one of the
  rows that match, whichever it meets first; \<open>pick\<close> is its choice among them.
\<close>

definition first_row :: "('a list \<Rightarrow> nat) \<Rightarrow> 'a list \<Rightarrow> 'a option" where
  "first_row pick rows = (if rows = [] then None else Some (rows ! (pick rows mod length rows)))"

text \<open>
  The upsert of \<^verbatim>\<open>update_metadata\<close>, statement by statement. The query for a note of the
  video carries \<^verbatim>\<open>video_id\<close>.
\<close>

definition select_first_note ::
  "(Note list \<Rightarrow> nat) \<Rightarrow> database \<Rightarrow> pystr \<Rightarrow> exn + Note option" where
  "select_first_note pick db video_id =
     (case driver_refusal [video_id] of
        Some e \<Rightarrow> Inl e
      | None \<Rightarrow> Inr (first_row pick (filter (\<lambda>n. note_video_id n = video_id) (notes_table db))))"

text \<open>
  \<^verbatim>\<open>Note(video_id=video_id)\<close> with its title set before the commit is inserted with the
  column default \<^verbatim>\<open>tags=[]\<close> and no content; \<^verbatim>\<open>video_id\<close> is indexed. The first
  component is the exception the commit raised, if any.
\<close>

definition insert_titled_note ::
  "(pystr \<Rightarrow> bool) \<Rightarrow> database \<Rightarrow> pystr \<Rightarrow> pystr \<Rightarrow> exn option \<times> database" where
  "insert_titled_note fits_index db video_id new_title =
     (case driver_refusal [video_id, new_title] of
        Some e \<Rightarrow> (Some e, db)
      | None \<Rightarrow>
          (let db1 = db \<lparr> notes_seq := notes_seq db + 1 \<rparr>
           in if \<not> fits_index video_id then (Some index_error, db1)
              else (None,
                    db1 \<lparr> notes_table := notes_table db @
                            [\<lparr> note_id = notes_seq db,
                               note_video_id = video_id,
                               note_title = Some new_title,
                               note_content = None,
                               note_tags = Some [],
                               note_created_at = now db,
                               note_updated_at = None \<rparr>] \<rparr>)))"

text \<open>
  \<^verbatim>\<open>note.title = ...; db.commit()\<close> on the row that was loaded. The ORM sends no
  \<^verbatim>\<open>UPDATE\<close> when the title assigned is the one on file. Otherwise the statement carries
  the title, the row with the primary key of the loaded row gets it, and
  \<^verbatim>\<open>onupdate=func.now()\<close> stamps \<^verbatim>\<open>updated_at\<close>.
\<close>

definition set_note_title :: "database \<Rightarrow> Note \<Rightarrow> pystr \<Rightarrow> exn option \<times> database" where
  "set_note_title db loaded new_title =
     (if note_title loaded = Some new_title then (None, db)
      else (case driver_refusal [new_title] of
              Some e \<Rightarrow> (Some e, db)
            | None \<Rightarrow>
                (None,
                 db \<lparr> notes_table :=
                        map (\<lambda>n. if note_id n = note_id loaded
                                 then n \<lparr> note_title := Some new_title,
                                          note_updated_at := Some (now db) \<rparr>
                                 else n)
                            (notes_table db) \<rparr>)))"

text \<open>\<^verbatim>\<open>order_by(Note.created_at.desc())\<close>: most recent first.\<close>

definition order_by_created_at_desc :: "Note list \<Rightarrow> Note list" where
  "order_by_created_at_desc ns = sort_key (\<lambda>n. - int (note_created_at n)) ns"

section \<open>app.py\<close>

text \<open>
  A request handler ends with a response, with an \<^verbatim>\<open>HTTPException(status_code, detail)\<close>
  it raised, or with an exception that nobody caught, which the framework answers with
  \<^verbatim>\<open>500 Internal Server Error\<close>.
\<close>

datatype http_error =
    HTTPException nat pystr
  | ServerError exn

text \<open>
  \<^verbatim>\<open>log_event\<close>. The handlers pass it constants and strings that are on file already or
  that the database has just accepted in an earlier statement of the request.
\<close>

definition log_event :: "database \<Rightarrow> pystr \<Rightarrow> pystr \<Rightarrow> database" where
  "log_event db act det = insert_log db act det"

text \<open>
  \<^verbatim>\<open>get_token_from_header\<close>. \<^verbatim>\<open>not authorization\<close> holds for a missing header and for an
  empty one.
\<close>

definition get_token_from_header :: "pystr option \<Rightarrow> http_error + pystr" where
  "get_token_from_header authorization =
     (case authorization of
        None \<Rightarrow> Inl (HTTPException 401 (ustr ''Missing or invalid Authorization header.''))
      | Some header \<Rightarrow>
          if header = [] \<or> \<not> py_startswith header (ustr ''Bearer '')
          then Inl (HTTPException 401 (ustr ''Missing or invalid Authorization header.''))
          else (case py_split header (ustr ''Bearer '') of
                  before # after # others \<Rightarrow> Inr (py_strip after)
                | _ \<Rightarrow> Inl (ServerError (IndexError (ustr ''list index out of range'')))))"

text \<open>\<^verbatim>\<open>get_youtube_from_db\<close>; \<^verbatim>\<open>.first()\<close> is the first matching row of the table.\<close>

definition get_youtube_from_db ::
  "(Credentials \<Rightarrow> youtube) \<Rightarrow> pystr \<Rightarrow> database \<Rightarrow> http_error + youtube" where
  "get_youtube_from_db build token db =
     (case find (\<lambda>s. access_token s = token) (user_sessions_table db) of
        None \<Rightarrow> Inl (HTTPException 401 (ustr ''Session not found. Please log in again via /login.''))
      | Some session \<Rightarrow>
          Inr (get_youtube_client build
                 \<lparr> creds_token = access_token session,
                   creds_refresh_token = refresh_token session,
                   creds_token_uri = token_uri session,
                   creds_client_id = client_id session,
                   creds_client_secret = client_secret session,
                   creds_scopes = Some (scopes session) \<rparr>))"

text \<open>
  The two dependencies every protected route resolves first, in this order.
\<close>

definition resolve_client ::
  "(Credentials \<Rightarrow> youtube) \<Rightarrow> pystr option \<Rightarrow> database \<Rightarrow> http_error + youtube" where
  "resolve_client build authorization db =
     (case get_token_from_header authorization of
        Inl err \<Rightarrow> Inl err
      | Inr token \<Rightarrow> get_youtube_from_db build token db)"

subsection \<open>Auth routes\<close>

text \<open>
  \<^verbatim>\<open>auth_callback\<close>. \<open>fetch_token code\<close> is the exchange of the code at the provider
  (\<^verbatim>\<open>flow.fetch_token(code=code); flow.credentials\<close>), a parameter: the credentials, or
  the exception raised, which the handler does not catch. The response is the URL of the
  redirect.
\<close>

definition auth_callback ::
  "(pystr \<Rightarrow> exn + Credentials) \<Rightarrow> pystr option \<Rightarrow> database \<Rightarrow> (http_error + pystr) \<times> database" where
  "auth_callback fetch_token code db =
     (case code of
        None \<Rightarrow> (Inl (HTTPException 400 (ustr ''Missing code from Google callback.'')), db)
      | Some c \<Rightarrow>
          if c = [] then (Inl (HTTPException 400 (ustr ''Missing code from Google callback.'')), db)
          else
            (case fetch_token c of
               Inl e \<Rightarrow> (Inl (ServerError e), db)
             | Inr creds \<Rightarrow>
                 (case find (\<lambda>s. access_token s = creds_token creds) (user_sessions_table db) of
                    Some existing \<Rightarrow>
                      (Inr (ustr ''http://localhost:3000/?token='' @ creds_token creds),
                       log_event db (ustr ''GOOGLE_LOGIN_SUCCESS'')
                         (ustr ''User authenticated via Google OAuth.''))
                  | None \<Rightarrow>
                      (case insert_user_session db creds of
                         Inl e \<Rightarrow> (Inl (ServerError e), db)
                       | Inr db1 \<Rightarrow>
                           (Inr (ustr ''http://localhost:3000/?token='' @ creds_token creds),
                            log_event db1 (ustr ''GOOGLE_LOGIN_SUCCESS'')
                              (ustr ''User authenticated via Google OAuth.''))))))"

text \<open>
  \<^verbatim>\<open>logout\<close>. \<open>requests_post url\<close> is the revocation request to the provider, a parameter:
  the status code of the response, or the exception \<^verbatim>\<open>requests.post\<close> raised. The handler
  does not look at the response.
\<close>

definition logout ::
  "(pystr \<Rightarrow> exn + nat) \<Rightarrow> pystr option \<Rightarrow> database \<Rightarrow> (http_error + json) \<times> database" where
  "logout requests_post authorization db =
     (case get_token_from_header authorization of
        Inl err \<Rightarrow> (Inl err, db)
      | Inr token \<Rightarrow>
          (case requests_post (ustr ''https://oauth2.googleapis.com/revoke?token='' @ token) of
             Inl e \<Rightarrow> (Inl (ServerError e), db)
           | Inr status_code \<Rightarrow>
               (let db1 = db \<lparr> user_sessions_table :=
                                 filter (\<lambda>s. access_token s \<noteq> token) (user_sessions_table db) \<rparr>
                in (Inr (JObj [(ustr ''message'', JStr (ustr ''Logged out successfully.''))]),
                    log_event db1 (ustr ''LOGOUT'') (ustr ''User revoked OAuth token.'')))))"

subsection \<open>Video routes\<close>

text \<open>
  The routes below return the response or the error, the database after the request, and
  the requests sent to the video platform.
\<close>

definition get_video ::
  "(Credentials \<Rightarrow> youtube) \<Rightarrow> pystr \<Rightarrow> pystr option \<Rightarrow> database \<Rightarrow>
     (http_error + json) \<times> database \<times> yt_call list" where
  "get_video build video_id authorization db =
     (case resolve_client build authorization db of
        Inl err \<Rightarrow> (Inl err, db, [])
      | Inr yt \<Rightarrow>
          (case fetch_video_details yt video_id of
             (Inl e, sent) \<Rightarrow> (Inl (ServerError e), db, sent)
           | (Inr video, sent) \<Rightarrow>
               if \<not> truthy video
               then (Inl (HTTPException 404 (ustr ''Video '' @ video_id @ ustr '' not found on YouTube.'')),
                     db, sent)
               else (Inr (JObj [(ustr ''data'', video)]),
                     log_event db (ustr ''VIDEO_FETCHED'')
                       (ustr ''Fetched details for video_id='' @ video_id),
                     sent)))"

text \<open>
  \<^verbatim>\<open>update_metadata\<close>. The remote update is the only step inside a \<^verbatim>\<open>try\<close>: an exception
  of the query or of the commit leaves the handler.
\<close>

definition update_metadata ::
  "(Credentials \<Rightarrow> youtube) \<Rightarrow> (Note list \<Rightarrow> nat) \<Rightarrow> (pystr \<Rightarrow> bool) \<Rightarrow>
     pystr \<Rightarrow> pystr \<Rightarrow> pystr \<Rightarrow> pystr option \<Rightarrow> database \<Rightarrow>
     (http_error + json) \<times> database \<times> yt_call list" where
  "update_metadata build pick fits_index video_id new_title description authorization db =
     (case resolve_client build authorization db of
        Inl err \<Rightarrow> (Inl err, db, [])
      | Inr yt \<Rightarrow>
          (case update_video_info yt video_id new_title description of
             (Inl e, sent) \<Rightarrow>
               (Inl (HTTPException 400 (ustr ''YouTube API error: '' @ str_exn e)), db, sent)
           | (Inr updated, sent) \<Rightarrow>
               (case select_first_note pick db video_id of
                  Inl e \<Rightarrow> (Inl (ServerError e), db, sent)
                | Inr found \<Rightarrow>
                    (case (case found of
                             None \<Rightarrow> insert_titled_note fits_index db video_id new_title
                           | Some note \<Rightarrow> set_note_title db note new_title) of
                       (Some e, db1) \<Rightarrow> (Inl (ServerError e), db1, sent)
                     | (None, db1) \<Rightarrow>
                         (Inr (JObj [(ustr ''status'', JStr (ustr ''success'')),
                                     (ustr ''message'',
                                      JStr (ustr ''Video title and description updated on YouTube.''))]),
                          log_event db1 (ustr ''VIDEO_METADATA_UPDATED'')
                            (ustr ''video_id='' @ video_id @ ustr '' title='' @ [39] @ new_title @ [39]),
                          sent)))))"

subsection \<open>Comment routes\<close>

definition get_comments ::
  "(Credentials \<Rightarrow> youtube) \<Rightarrow> pystr \<Rightarrow> pystr option \<Rightarrow> database \<Rightarrow>
     (http_error + json) \<times> database \<times> yt_call list" where
  "get_comments build video_id authorization db =
     (case resolve_client build authorization db of
        Inl err \<Rightarrow> (Inl err, db, [])
      | Inr yt \<Rightarrow>
          (case fetch_video_comments yt video_id of
             (Inl e, sent) \<Rightarrow>
               (Inl (HTTPException 400 (ustr ''YouTube API error: '' @ str_exn e)), db, sent)
           | (Inr comments, sent) \<Rightarrow>
               (Inr (JObj [(ustr ''data'', comments)]),
                log_event db (ustr ''COMMENTS_FETCHED'') (ustr ''video_id='' @ video_id),
                sent)))"

text \<open>
  \<^verbatim>\<open>add_comment\<close>. \<^verbatim>\<open>if body.parent_id\<close> holds for a parent id that is present and not
  empty; the column \<^verbatim>\<open>parent_youtube_id\<close> gets \<^verbatim>\<open>body.parent_id\<close> as it came.
\<close>

definition is_reply :: "pystr option \<Rightarrow> bool" where
  "is_reply parent_id \<longleftrightarrow> (case parent_id of None \<Rightarrow> False | Some p \<Rightarrow> p \<noteq> [])"

text \<open>The \<^verbatim>\<open>try\<close> block: a reply if there is a parent, a top-level comment otherwise.\<close>

definition remote_insert ::
  "youtube \<Rightarrow> pystr \<Rightarrow> pystr \<Rightarrow> pystr option \<Rightarrow> (exn + pystr) \<times> yt_call list" where
  "remote_insert yt video_id comment parent_id =
     (case parent_id of
        None \<Rightarrow> post_comment yt video_id comment
      | Some p \<Rightarrow> if p = [] then post_comment yt video_id comment
                  else reply_to_comment yt p comment)"

definition add_comment ::
  "(Credentials \<Rightarrow> youtube) \<Rightarrow> (pystr \<Rightarrow> bool) \<Rightarrow> pystr \<Rightarrow> pystr \<Rightarrow> pystr option \<Rightarrow>
     pystr option \<Rightarrow> database \<Rightarrow> (http_error + Comment) \<times> database \<times> yt_call list" where
  "add_comment build fits_index video_id comment parent_id authorization db =
     (case resolve_client build authorization db of
        Inl err \<Rightarrow> (Inl err, db, [])
      | Inr yt \<Rightarrow>
          (case remote_insert yt video_id comment parent_id of
             (Inl e, sent) \<Rightarrow>
               (Inl (HTTPException 400 (ustr ''YouTube API error: '' @ str_exn e)), db, sent)
           | (Inr yt_comment_id, sent) \<Rightarrow>
               (case insert_comment fits_index db video_id yt_comment_id parent_id comment of
                  (Inl e, db1) \<Rightarrow> (Inl (ServerError e), db1, sent)
                | (Inr new_comment, db1) \<Rightarrow>
                    (Inr new_comment,
                     log_event db1
                       (if is_reply parent_id then ustr ''REPLY_POSTED'' else ustr ''COMMENT_POSTED'')
                       (ustr ''video_id='' @ video_id @ ustr '' yt_comment_id='' @ yt_comment_id),
                     sent))))"

text \<open>
  \<^verbatim>\<open>remove_comment\<close>; \<^verbatim>\<open>db.delete(comment)\<close> deletes the row with the primary key of the
  row that was loaded.
\<close>

definition remove_comment ::
  "(Credentials \<Rightarrow> youtube) \<Rightarrow> int \<Rightarrow> pystr option \<Rightarrow> database \<Rightarrow>
     (http_error + json) \<times> database \<times> yt_call list" where
  "remove_comment build cid authorization db =
     (case resolve_client build authorization db of
        Inl err \<Rightarrow> (Inl err, db, [])
      | Inr yt \<Rightarrow>
          (case find (\<lambda>c. comment_id c = cid) (comments_table db) of
             None \<Rightarrow> (Inl (HTTPException 404 (ustr ''Comment not found in local DB.'')), db, [])
           | Some comment \<Rightarrow>
               (case delete_comment yt (youtube_comment_id comment) of
                  (Inl e, sent) \<Rightarrow>
                    (Inl (HTTPException 400 (ustr ''YouTube API error: '' @ str_exn e)), db, sent)
                | (Inr done, sent) \<Rightarrow>
                    (let yt_id = youtube_comment_id comment;
                         db1 = db \<lparr> comments_table :=
                                      filter (\<lambda>c. comment_id c \<noteq> comment_id comment)
                                        (comments_table db) \<rparr>
                     in (Inr (JObj [(ustr ''status'', JStr (ustr ''success'')),
                                    (ustr ''message'',
                                     JStr (ustr ''Comment deleted from YouTube and local DB.''))]),
                         log_event db1 (ustr ''COMMENT_DELETED'') (ustr ''yt_comment_id='' @ yt_id),
                         sent)))))"

subsection \<open>Notes routes\<close>

text \<open>
  \<^verbatim>\<open>get_notes\<close>. \<open>ilike v p\<close> is the database's \<^verbatim>\<open>v ILIKE p\<close> on a column value that is
  not null (on a null column the comparison is null and the row is not selected by it), a
  parameter. \<^verbatim>\<open>if search\<close> and \<^verbatim>\<open>if tag\<close> hold for a parameter that is present and not
  empty. The query carries \<^verbatim>\<open>video_id\<close> and, with a search, the pattern twice; the tag
  is compared in Python and never sent. The handler reads the database only, and an
  exception of the query leaves it.
\<close>

definition ilike_column :: "(pystr \<Rightarrow> pystr \<Rightarrow> bool) \<Rightarrow> pystr option \<Rightarrow> pystr \<Rightarrow> bool" where
  "ilike_column ilike column pattern \<longleftrightarrow>
     (case column of None \<Rightarrow> False | Some v \<Rightarrow> ilike v pattern)"

definition tags_or_empty :: "Note \<Rightarrow> pystr list" where
  "tags_or_empty n = (case note_tags n of None \<Rightarrow> [] | Some ts \<Rightarrow> ts)"

definition searching :: "pystr option \<Rightarrow> bool" where
  "searching search \<longleftrightarrow> (case search of None \<Rightarrow> False | Some s \<Rightarrow> s \<noteq> [])"

definition search_pattern :: "pystr option \<Rightarrow> pystr" where
  "search_pattern search = (case search of None \<Rightarrow> [] | Some s \<Rightarrow> ustr ''%'' @ s @ ustr ''%'')"

definition get_notes ::
  "(pystr \<Rightarrow> pystr) \<Rightarrow> (pystr \<Rightarrow> pystr \<Rightarrow> bool) \<Rightarrow> pystr \<Rightarrow> pystr option \<Rightarrow> pystr option \<Rightarrow>
     database \<Rightarrow> http_error + Note list" where
  "get_notes unicode_lower ilike video_id search tag db =
     (case driver_refusal
             (video_id # (if searching search then [search_pattern search, search_pattern search]
                          else [])) of
        Some e \<Rightarrow> Inl (ServerError e)
      | None \<Rightarrow>
          (let query = filter (\<lambda>n. note_video_id n = video_id) (notes_table db);
               query1 =
                 (if searching search
                  then filter (\<lambda>n. ilike_column ilike (note_content n) (search_pattern search) \<or>
                                   ilike_column ilike (note_title n) (search_pattern search))
                         query
                  else query);
               all_notes = order_by_created_at_desc query1
           in case tag of
                None \<Rightarrow> Inr all_notes
              | Some t \<Rightarrow>
                  if t = [] then Inr all_notes
                  else (let tag_lower = str_lower unicode_lower (py_strip t)
                        in Inr (filter (\<lambda>n. list_ex (\<lambda>x. str_lower unicode_lower (py_strip x) = tag_lower)
                                            (tags_or_empty n))
                                  all_notes))))"

section \<open>Notions of the specification\<close>

text \<open>At most one session row for each access token.\<close>

definition one_session_per_token :: "database \<Rightarrow> bool" where
  "one_session_per_token db \<longleftrightarrow> distinct (map access_token (user_sessions_table db))"

text \<open>The primary key of the comments table identifies its rows.\<close>

definition comment_ids_distinct :: "database \<Rightarrow> bool" where
  "comment_ids_distinct db \<longleftrightarrow> distinct (map comment_id (comments_table db))"

text \<open>No remote comment is mirrored twice.\<close>

definition remote_ids_distinct :: "database \<Rightarrow> bool" where
  "remote_ids_distinct db \<longleftrightarrow> distinct (map youtube_comment_id (comments_table db))"

text \<open>The primary key of the notes table identifies its rows.\<close>

definition note_ids_distinct :: "database \<Rightarrow> bool" where
  "note_ids_distinct db \<longleftrightarrow> distinct (map note_id (notes_table db))"

text \<open>
  The database takes the comment: every string of the statement can be sent, and the two
  indexed values fit an index entry.
\<close>

definition accepts_comment ::
  "(pystr \<Rightarrow> bool) \<Rightarrow> pystr \<Rightarrow> pystr \<Rightarrow> pystr option \<Rightarrow> pystr \<Rightarrow> bool" where
  "accepts_comment fits_index video_id yt_comment_id parent_id comment \<longleftrightarrow>
     list_all storable (comment_params video_id yt_comment_id parent_id comment) \<and>
     fits_index video_id \<and> fits_index yt_comment_id"

text \<open>
  A string without its leading and its trailing whitespace, by counting: as many
  characters are dropped at the front as whitespace leads, and of the rest as many are
  kept as are left when the trailing whitespace is taken off.
\<close>

definition trimmed :: "pystr \<Rightarrow> pystr" where
  "trimmed s =
     (let lead = length (takeWhile py_isspace s);
          trail = length (takeWhile py_isspace (rev s))
      in take (length s - lead - trail) (drop lead s))"

text \<open>
  Two characters are the same letter when they are equal or one is a capital A to Z and
  the other its small letter; two strings are equal ignoring case when they have the same
  length and the same letters at each position.
\<close>

definition same_letter :: "nat \<Rightarrow> nat \<Rightarrow> bool" where
  "same_letter c d \<longleftrightarrow>
     c = d \<or> (65 \<le> c \<and> c \<le> 90 \<and> d = c + 32) \<or> (65 \<le> d \<and> d \<le> 90 \<and> c = d + 32)"

definition equal_ignoring_case :: "pystr \<Rightarrow> pystr \<Rightarrow> bool" where
  "equal_ignoring_case a b \<longleftrightarrow> list_all2 same_letter a b"

text \<open>
  Two tags are the same when, trimmed, they are equal ignoring case; where one of them
  holds a character beyond ASCII, equality ignoring case is equality of what the Unicode
  lower-casing gives. A note has a tag when its tag set is present and contains an
  element that is the same.
\<close>

definition same_tag :: "(pystr \<Rightarrow> pystr) \<Rightarrow> pystr \<Rightarrow> pystr \<Rightarrow> bool" where
  "same_tag unicode_lower a b \<longleftrightarrow>
     (if is_ascii (trimmed a) \<and> is_ascii (trimmed b)
      then equal_ignoring_case (trimmed a) (trimmed b)
      else str_lower unicode_lower (trimmed a) = str_lower unicode_lower (trimmed b))"

definition has_tag :: "(pystr \<Rightarrow> pystr) \<Rightarrow> Note \<Rightarrow> pystr \<Rightarrow> bool" where
  "has_tag unicode_lower n t \<longleftrightarrow>
     (case note_tags n of
        None \<Rightarrow> False
      | Some ts \<Rightarrow> list_ex (\<lambda>x. same_tag unicode_lower x t) ts)"

text \<open>Most recent first.\<close>

definition newest_first :: "Note list \<Rightarrow> bool" where
  "newest_first ns \<longleftrightarrow> sorted_wrt (\<lambda>a b. note_created_at b \<le> note_created_at a) ns"

text \<open>
  What the provider's revocation endpoint answers: status 200 when the token was revoked,
  an error status when it was not; the request can also fail without an answer. The
  revocation succeeded in the first case only.
\<close>

definition revocation_succeeded :: "exn + nat \<Rightarrow> bool" where
  "revocation_succeeded answer \<longleftrightarrow>
     (case answer of Inl e \<Rightarrow> False | Inr status_code \<Rightarrow> status_code = 200)"

section \<open>Concrete inputs\<close>

text \<open>
  A database with one session, one mirrored comment and two notes of the same video, and
  an empty one.
\<close>

definition sample_comment :: Comment where
  "sample_comment =
     \<lparr> comment_id = 1, comment_video_id = ustr ''vid'', youtube_comment_id = ustr ''c1'',
       parent_youtube_id = None, comment_text = ustr ''hello'', comment_created_at = 7 \<rparr>"

definition fun_note :: Note where
  "fun_note =
     \<lparr> note_id = 1, note_video_id = ustr ''vid'', note_title = Some (ustr ''old title''),
       note_content = Some (ustr ''my note''), note_tags = Some [ustr ''Fun''],
       note_created_at = 10, note_updated_at = None \<rparr>"

definition untagged_note :: Note where
  "untagged_note =
     \<lparr> note_id = 2, note_video_id = ustr ''vid'', note_title = None,
       note_content = Some (ustr ''other''), note_tags = Some [],
       note_created_at = 20, note_updated_at = None \<rparr>"

definition sample_db :: database where
  "sample_db =
     \<lparr> notes_table = [fun_note, untagged_note],
       logs_table = [],
       user_sessions_table =
         [\<lparr> session_id = 1, access_token = ustr ''tok'', refresh_token = None,
            token_uri = ustr ''https://oauth2.googleapis.com/token'', client_id = ustr ''cid'',
            client_secret = ustr ''secret'', scopes = [], session_created_at = 5 \<rparr>],
       comments_table = [sample_comment],
       notes_seq = 3, logs_seq = 1, user_sessions_seq = 2, comments_seq = 2, now = 30 \<rparr>"

definition empty_db :: database where
  "empty_db =
     \<lparr> notes_table = [], logs_table = [], user_sessions_table = [], comments_table = [],
       notes_seq = 1, logs_seq = 1, user_sessions_seq = 1, comments_seq = 1, now = 0 \<rparr>"

text \<open>The header of the session on file, and the credentials a login would obtain.\<close>

definition bearer_tok :: "pystr option" where
  "bearer_tok = Some (ustr ''Bearer tok'')"

definition sample_creds :: Credentials where
  "sample_creds =
     \<lparr> creds_token = ustr ''tok'', creds_refresh_token = None,
       creds_token_uri = ustr ''https://oauth2.googleapis.com/token'',
       creds_client_id = ustr ''cid'', creds_client_secret = ustr ''secret'',
       creds_scopes = None \<rparr>"

definition fetch_sample_creds :: "pystr \<Rightarrow> exn + Credentials" where
  "fetch_sample_creds code = Inr sample_creds"

text \<open>
  A video with a category and tags; a client for which every request succeeds, one for
  which every request fails, and one whose insert returns the id of the comment that is
  mirrored already; the library function \<^verbatim>\<open>build\<close> handing out each of them.
\<close>

definition sample_video :: json where
  "sample_video =
     JObj [(ustr ''id'', JStr (ustr ''vid'')),
           (ustr ''snippet'',
            JObj [(ustr ''title'', JStr (ustr ''old title'')),
                  (ustr ''categoryId'', JStr (ustr ''22'')),
                  (ustr ''tags'', JArr [JStr (ustr ''a''), JStr (ustr ''b'')])])]"

definition client_ok :: youtube where
  "client_ok =
     \<lparr> videos_list = (\<lambda>part video_id. Inr (JObj [(ustr ''items'', JArr [sample_video])])),
       videos_update = (\<lambda>part body. Inr body),
       commentThreads_list = (\<lambda>part video_id max_results text_format. Inr (JObj [])),
       commentThreads_insert = (\<lambda>part body. Inr (ustr ''c2'')),
       comments_insert = (\<lambda>part body. Inr (ustr ''c3'')),
       comments_delete = (\<lambda>yt_comment_id. Inr ()) \<rparr>"

definition client_down :: youtube where
  "client_down =
     \<lparr> videos_list = (\<lambda>part video_id. Inl (RemoteError (ustr ''quotaExceeded''))),
       videos_update = (\<lambda>part body. Inl (RemoteError (ustr ''quotaExceeded''))),
       commentThreads_list =
         (\<lambda>part video_id max_results text_format. Inl (RemoteError (ustr ''quotaExceeded''))),
       commentThreads_insert = (\<lambda>part body. Inl (RemoteError (ustr ''quotaExceeded''))),
       comments_insert = (\<lambda>part body. Inl (RemoteError (ustr ''quotaExceeded''))),
       comments_delete = (\<lambda>yt_comment_id. Inl (RemoteError (ustr ''quotaExceeded''))) \<rparr>"

definition client_same_id :: youtube where
  "client_same_id = client_ok \<lparr> commentThreads_insert := (\<lambda>part body. Inr (ustr ''c1'')) \<rparr>"

definition build_ok :: "Credentials \<Rightarrow> youtube" where
  "build_ok creds = client_ok"

definition build_down :: "Credentials \<Rightarrow> youtube" where
  "build_down creds = client_down"

definition build_same_id :: "Credentials \<Rightarrow> youtube" where
  "build_same_id creds = client_same_id"

text \<open>A provider that revokes every token, and one that refuses every revocation.\<close>

definition revoke_accepted :: "pystr \<Rightarrow> exn + nat" where
  "revoke_accepted revoke_url = Inr 200"

definition revoke_refused :: "pystr \<Rightarrow> exn + nat" where
  "revoke_refused revoke_url = Inr 400"

text \<open>
  A completion whose text has two pipe-separated segments only, and a completion API that
  answers every request with it.
\<close>

definition two_segment_response :: json where
  "two_segment_response =
     JObj [(ustr ''choices'',
            JArr [JObj [(ustr ''message'',
                         JObj [(ustr ''content'', JStr (ustr ''Title One | Title Two''))])]])]"

definition groq_two_segments :: groq_api where
  "groq_two_segments req = Inr two_segment_response"

text \<open>An \<^verbatim>\<open>ILIKE\<close> that matches nothing; the notes below are listed without a search.\<close>

definition ilike_nothing :: "pystr \<Rightarrow> pystr \<Rightarrow> bool" where
  "ilike_nothing v p \<longleftrightarrow> False"

text \<open>
  A lower-casing that leaves strings beyond ASCII as they are; the tags below are ASCII.
\<close>

definition unicode_unchanged :: "pystr \<Rightarrow> pystr" where
  "unicode_unchanged s = s"

text \<open>
  A server whose index takes every value; a database that answers \<^verbatim>\<open>.first()\<close> with the
  oldest matching row, and one that answers with the second; a title that holds U+0000.
\<close>

definition every_value_fits :: "pystr \<Rightarrow> bool" where
  "every_value_fits s \<longleftrightarrow> True"

definition pick_oldest :: "Note list \<Rightarrow> nat" where
  "pick_oldest rows = 0"

definition pick_second :: "Note list \<Rightarrow> nat" where
  "pick_second rows = 1"

definition nul_title :: pystr where
  "nul_title = [97, 0, 98]"

section \<open>Properties\<close>

subsection \<open>Strings\<close>

lemma py_split_from_nonempty: "py_split_from sep acc s \<noteq> []"
  by (induction sep acc s rule: py_split_from.induct) auto

lemma py_split_prefix:
  assumes "sep \<noteq> []" "py_startswith s sep"
  shows "\<exists>rest. py_split s sep = [] # rest \<and> rest \<noteq> []"
proof (cases s)
  case Nil
  with assms show ?thesis by (simp add: py_startswith_def)
next
  case (Cons c cs)
  with assms show ?thesis
    by (simp add: py_startswith_def py_split_def py_split_from_nonempty)
qed

text \<open>
  The header check guarantees the second piece of the split: \<open>get_token_from_header\<close>
  answers 401 or returns a token, it never fails on the index.
\<close>

lemma get_token_from_header_cases:
  "get_token_from_header authorization =
     Inl (HTTPException 401 (ustr ''Missing or invalid Authorization header.'')) \<or>
   (\<exists>token. get_token_from_header authorization = Inr token)"
proof (cases authorization)
  case None
  then show ?thesis by (simp add: get_token_from_header_def)
next
  case (Some header)
  show ?thesis
  proof (cases "header = [] \<or> \<not> py_startswith header (ustr ''Bearer '')")
    case True
    with Some show ?thesis by (auto simp: get_token_from_header_def)
  next
    case False
    then have "py_startswith header (ustr ''Bearer '')" by simp
    moreover have "ustr ''Bearer '' \<noteq> []" by (simp add: ustr_def)
    ultimately obtain rest where "py_split header (ustr ''Bearer '') = [] # rest" "rest \<noteq> []"
      using py_split_prefix by blast
    with Some False show ?thesis
      by (cases rest) (auto simp: get_token_from_header_def)
  qed
qed

subsection \<open>Title suggestions\<close>

lemma length_fallback_titles: "length (fallback_titles t) = 3"
  by (simp add: fallback_titles_def)

lemma length_missing_key_titles: "length missing_key_titles = 3"
  by (simp add: missing_key_titles_def)

lemma length_error_titles: "length (error_titles e) = 3"
  by (simp add: error_titles_def)

lemma request_titles_length:
  "fst (request_titles groq key t) = Inr titles \<Longrightarrow> length titles = 3"
  by (auto simp: request_titles_def Let_def length_fallback_titles split: sum.splits if_splits)

lemma completion_text_two_segments:
  "completion_text two_segment_response = Inr (ustr ''Title One | Title Two'')"
  by (simp add: two_segment_response_def completion_text_def ustr_def py_strip_def py_isspace_def)

lemma parse_titles_two_segments:
  "parse_titles (ustr ''Title One | Title Two'') = [ustr ''Title One'', ustr ''Title Two'']"
  by (simp add: parse_titles_def py_split_def ustr_def py_strip_def py_isspace_def)

text \<open>
  Claim C8. \<open>generate_viral_titles\<close> always returns, and what it returns is a list of
  exactly three strings: no exception leaves the function, whatever the completion API
  answers. When the key is configured, the request succeeds and the text of the completion
  parses into fewer than three pipe-separated candidates, the result is the fallback
  template built from the current title, spelled out below, not the parsed segments.
\<close>

theorem generate_viral_titles_three:
  "(\<exists>titles. fst (generate_viral_titles groq api_key t) = Inr titles \<and> length titles = 3) \<and>
   (api_key = Some key \<longrightarrow> key \<noteq> [] \<longrightarrow> groq (build_request key t) = Inr data \<longrightarrow>
      completion_text data = Inr raw_text \<longrightarrow> length (parse_titles raw_text) < 3 \<longrightarrow>
      generate_viral_titles groq api_key t =
        (Inr [ustr ''You Won't Believe What Happened with '' @ t,
              ustr ''The Truth About '' @ t @ ustr '' Nobody Tells You'',
              ustr ''I Tried '' @ t @ ustr '' for 30 Days '' @ [8212] @ ustr '' Here's What Happened''],
         [build_request key t]))"
proof (intro conjI impI)
  show "\<exists>titles. fst (generate_viral_titles groq api_key t) = Inr titles \<and> length titles = 3"
  proof (cases api_key)
    case None
    then show ?thesis
      by (simp add: generate_viral_titles_def length_missing_key_titles)
  next
    case (Some k)
    show ?thesis
    proof (cases "k = []")
      case True
      with Some show ?thesis
        by (simp add: generate_viral_titles_def length_missing_key_titles)
    next
      case False
      obtain r sent where rt: "request_titles groq k t = (r, sent)"
        by (cases "request_titles groq k t")
      show ?thesis
      proof (cases r)
        case (Inl e)
        with Some False rt show ?thesis
          by (simp add: generate_viral_titles_def length_error_titles)
      next
        case (Inr titles)
        with rt have "length titles = 3"
          using request_titles_length [of groq k t titles] by simp
        with Some False rt Inr show ?thesis
          by (simp add: generate_viral_titles_def)
      qed
    qed
  qed
next
  assume "api_key = Some key" "key \<noteq> []" "groq (build_request key t) = Inr data"
    "completion_text data = Inr raw_text" "length (parse_titles raw_text) < 3"
  then have "generate_viral_titles groq api_key t = (Inr (fallback_titles t), [build_request key t])"
    by (simp add: generate_viral_titles_def request_titles_def Let_def)
  then show "generate_viral_titles groq api_key t =
        (Inr [ustr ''You Won't Believe What Happened with '' @ t,
              ustr ''The Truth About '' @ t @ ustr '' Nobody Tells You'',
              ustr ''I Tried '' @ t @ ustr '' for 30 Days '' @ [8212] @ ustr '' Here's What Happened''],
         [build_request key t])"
    by (simp add: fallback_titles_def ustr_def)
qed

theorem generate_viral_titles_three_witness:
  "generate_viral_titles groq_two_segments (Some (ustr ''gsk'')) (ustr ''X'') =
     (Inr [ustr ''You Won't Believe What Happened with X'',
           ustr ''The Truth About X Nobody Tells You'',
           ustr ''I Tried X for 30 Days '' @ [8212] @ ustr '' Here's What Happened''],
      [build_request (ustr ''gsk'') (ustr ''X'')])"
proof -
  have "ustr ''gsk'' \<noteq> []"
    by (simp add: ustr_def)
  moreover have "length (parse_titles (ustr ''Title One | Title Two'')) < 3"
    using parse_titles_two_segments by simp
  moreover have "groq_two_segments (build_request (ustr ''gsk'') (ustr ''X'')) = Inr two_segment_response"
    by (simp add: groq_two_segments_def)
  ultimately have "generate_viral_titles groq_two_segments (Some (ustr ''gsk'')) (ustr ''X'') =
        (Inr [ustr ''You Won't Believe What Happened with '' @ ustr ''X'',
              ustr ''The Truth About '' @ ustr ''X'' @ ustr '' Nobody Tells You'',
              ustr ''I Tried '' @ ustr ''X'' @ ustr '' for 30 Days '' @ [8212] @
                ustr '' Here's What Happened''],
         [build_request (ustr ''gsk'') (ustr ''X'')])"
    using generate_viral_titles_three
      [of groq_two_segments "Some (ustr ''gsk'')" "ustr ''X''" "ustr ''gsk''"
          two_segment_response "ustr ''Title One | Title Two''"]
      completion_text_two_segments
    by simp
  then show ?thesis
    by (simp add: ustr_def)
qed

text \<open>
  Claim C9. When the API key is absent from the configuration (unset, or set to the empty
  string), \<open>generate_viral_titles\<close> sends no request and returns the three fixed
  instructional strings, whatever the title.
\<close>

theorem missing_key_short_circuit:
  "api_key = None \<or> api_key = Some [] \<Longrightarrow>
     generate_viral_titles groq api_key t = (Inr missing_key_titles, []) \<and>
     length missing_key_titles = 3"
  by (auto simp: generate_viral_titles_def length_missing_key_titles)

theorem missing_key_short_circuit_witness:
  "generate_viral_titles groq_two_segments None (ustr ''X'') =
     (Inr [ustr ''Error: GROQ_API_KEY is missing from .env'',
           ustr ''Get a free key at console.groq.com'',
           ustr ''Then restart the server''], [])"
  using missing_key_short_circuit [of None groq_two_segments "ustr ''X''"]
  by (simp add: missing_key_titles_def)

subsection \<open>Rows and keys\<close>

lemma log_event_tables [simp]:
  "user_sessions_table (log_event db a d) = user_sessions_table db"
  "comments_table (log_event db a d) = comments_table db"
  "notes_table (log_event db a d) = notes_table db"
  by (simp_all add: log_event_def insert_log_def)

lemma find_key_mem: "find (\<lambda>y. f y = k) xs \<noteq> None \<Longrightarrow> k \<in> f ` set xs"
  by (induction xs) (auto split: if_splits)

lemma find_by_key:
  "distinct (map f xs) \<Longrightarrow> x \<in> set xs \<Longrightarrow> find (\<lambda>y. f y = f x) xs = Some x"
  by (induction xs) (auto simp: image_iff)

lemma same_key_same_row:
  "distinct (map f xs) \<Longrightarrow> x \<in> set xs \<Longrightarrow> y \<in> set xs \<Longrightarrow> f x = f y \<Longrightarrow> x = y"
  by (metis distinct_map inj_on_def)

lemma distinct_key_count:
  "distinct (map f xs) \<Longrightarrow> k \<in> f ` set xs \<Longrightarrow> length (filter (\<lambda>y. f y = k) xs) = 1"
proof (induction xs)
  case Nil
  then show ?case by simp
next
  case (Cons x xs)
  show ?case
  proof (cases "f x = k")
    case True
    with Cons.prems have "k \<notin> f ` set xs" by auto
    then have "filter (\<lambda>y. f y = k) xs = []" by (auto simp: filter_empty_conv)
    with True show ?thesis by simp
  next
    case False
    with Cons show ?thesis by auto
  qed
qed

lemma filter_key_remove1:
  "distinct (map f xs) \<Longrightarrow> x \<in> set xs \<Longrightarrow> filter (\<lambda>y. f y \<noteq> f x) xs = remove1 x xs"
proof (induction xs)
  case Nil
  then show ?case by simp
next
  case (Cons y ys)
  show ?case
  proof (cases "y = x")
    case True
    with Cons.prems have "\<forall>z\<in>set ys. f z \<noteq> f x" by (auto simp: image_iff)
    then have "filter (\<lambda>z. f z \<noteq> f x) ys = ys" by (simp add: filter_id_conv)
    with True show ?thesis by simp
  next
    case False
    with Cons.prems have "f y \<noteq> f x" by (auto simp: image_iff)
    with False Cons show ?thesis by simp
  qed
qed

subsection \<open>Statements that the driver refuses\<close>

lemma storable_refusal_None: "list_all storable params \<Longrightarrow> driver_refusal params = None"
  by (auto simp: driver_refusal_def find_None_iff list_all_iff)

lemma unstorable_refusal_Some:
  "\<not> list_all storable params \<Longrightarrow> \<exists>e. driver_refusal params = Some e"
  by (cases "find (\<lambda>s. \<not> storable s) params")
    (auto simp: driver_refusal_def find_None_iff list_all_iff)


subsection \<open>The session on file\<close>

lemma bearer_tok_token: "get_token_from_header bearer_tok = Inr (ustr ''tok'')"
  by (simp add: bearer_tok_def get_token_from_header_def py_startswith_def py_split_def
      py_strip_def py_isspace_def ustr_def)

lemma sample_db_tok_session:
  "get_youtube_from_db build (ustr ''tok'') sample_db =
     Inr (build (sample_creds \<lparr> creds_scopes := Some [] \<rparr>))"
  by (simp add: get_youtube_from_db_def sample_db_def get_youtube_client_def sample_creds_def
      ustr_def)

lemma resolve_client_sample:
  "resolve_client build bearer_tok sample_db =
     Inr (build (sample_creds \<lparr> creds_scopes := Some [] \<rparr>))"
  by (simp add: resolve_client_def bearer_tok_token sample_db_tok_session)

lemma resolve_client_ok: "resolve_client build_ok bearer_tok sample_db = Inr client_ok"
  using resolve_client_sample [of build_ok] by (simp add: build_ok_def)

lemma resolve_client_down: "resolve_client build_down bearer_tok sample_db = Inr client_down"
  using resolve_client_sample [of build_down] by (simp add: build_down_def)

lemma resolve_client_same_id:
  "resolve_client build_same_id bearer_tok sample_db = Inr client_same_id"
  using resolve_client_sample [of build_same_id] by (simp add: build_same_id_def)

subsection \<open>The OAuth callback\<close>

lemma insert_user_session_fresh:
  "find (\<lambda>s. access_token s = creds_token creds) (user_sessions_table db) = None \<Longrightarrow>
     \<exists>db1. insert_user_session db creds = Inr db1 \<and>
       (\<exists>row. user_sessions_table db1 = user_sessions_table db @ [row] \<and>
          access_token row = creds_token creds)"
  by (auto simp: insert_user_session_def find_None_iff)

lemma auth_callback_sessions:
  assumes "c \<noteq> []" "fetch_token c = Inr creds"
  shows "fst (auth_callback fetch_token (Some c) db) =
      Inr (ustr ''http://localhost:3000/?token='' @ creds_token creds) \<and>
    (if find (\<lambda>s. access_token s = creds_token creds) (user_sessions_table db) = None
     then \<exists>row. user_sessions_table (snd (auth_callback fetch_token (Some c) db)) =
            user_sessions_table db @ [row] \<and> access_token row = creds_token creds
     else user_sessions_table (snd (auth_callback fetch_token (Some c) db)) =
            user_sessions_table db)"
proof (cases "find (\<lambda>s. access_token s = creds_token creds) (user_sessions_table db)")
  case None
  from insert_user_session_fresh [OF None] obtain db1 row where
    "insert_user_session db creds = Inr db1"
    "user_sessions_table db1 = user_sessions_table db @ [row]" "access_token row = creds_token creds"
    by blast
  with None assms show ?thesis
    by (simp add: auth_callback_def)
next
  case (Some existing)
  with assms show ?thesis
    by (simp add: auth_callback_def)
qed

text \<open>
  Claim C3. Two runs of the OAuth callback that obtain the same access token from the
  provider: the second run leaves the table of sessions as the first run left it, so no
  second row is created. If the table held at most one row for each access token before,
  it still does afterwards, and it holds exactly one row for the token presented.
\<close>

theorem auth_callback_idempotent:
  "c \<noteq> [] \<Longrightarrow> fetch_token c = Inr creds \<Longrightarrow>
   c' \<noteq> [] \<Longrightarrow> fetch_token' c' = Inr creds' \<Longrightarrow> creds_token creds' = creds_token creds \<Longrightarrow>
   db1 = snd (auth_callback fetch_token (Some c) db) \<Longrightarrow>
   db2 = snd (auth_callback fetch_token' (Some c') db1) \<Longrightarrow>
   user_sessions_table db2 = user_sessions_table db1 \<and>
   (one_session_per_token db \<longrightarrow>
      one_session_per_token db2 \<and>
      length (filter (\<lambda>s. access_token s = creds_token creds) (user_sessions_table db2)) = 1)"
proof -
  assume c: "c \<noteq> []" "fetch_token c = Inr creds"
    and c': "c' \<noteq> []" "fetch_token' c' = Inr creds'" "creds_token creds' = creds_token creds"
    and db1: "db1 = snd (auth_callback fetch_token (Some c) db)"
    and db2: "db2 = snd (auth_callback fetch_token' (Some c') db1)"
  let ?tok = "creds_token creds"
  let ?hit = "\<lambda>s. access_token s = ?tok"
  have first: "if find ?hit (user_sessions_table db) = None
     then \<exists>row. user_sessions_table db1 = user_sessions_table db @ [row] \<and> access_token row = ?tok
     else user_sessions_table db1 = user_sessions_table db"
    using auth_callback_sessions [of c fetch_token creds db] c db1 by simp
  have on_file: "find ?hit (user_sessions_table db1) \<noteq> None"
  proof (cases "find ?hit (user_sessions_table db) = None")
    case True
    with first show ?thesis by (auto simp: find_None_iff)
  next
    case False
    with first show ?thesis by simp
  qed
  have second: "user_sessions_table db2 = user_sessions_table db1"
    using auth_callback_sessions [of c' fetch_token' creds' db1] c' db2 on_file by simp
  have inv: "one_session_per_token db1" if "one_session_per_token db"
  proof (cases "find ?hit (user_sessions_table db) = None")
    case True
    with first obtain row where row: "user_sessions_table db1 = user_sessions_table db @ [row]"
      "access_token row = ?tok" by auto
    from True have "?tok \<notin> access_token ` set (user_sessions_table db)"
      by (auto simp: find_None_iff)
    with that row show ?thesis by (simp add: one_session_per_token_def)
  next
    case False
    with first that show ?thesis by (simp add: one_session_per_token_def)
  qed
  from on_file have mem: "?tok \<in> access_token ` set (user_sessions_table db1)"
    by (rule find_key_mem)
  show ?thesis
  proof (intro conjI impI)
    show "user_sessions_table db2 = user_sessions_table db1" by (fact second)
  next
    assume "one_session_per_token db"
    with inv second show "one_session_per_token db2" by (simp add: one_session_per_token_def)
  next
    assume "one_session_per_token db"
    with inv have "distinct (map access_token (user_sessions_table db1))"
      by (simp add: one_session_per_token_def)
    from distinct_key_count [OF this mem] second
    show "length (filter ?hit (user_sessions_table db2)) = 1" by simp
  qed
qed

theorem auth_callback_idempotent_witness:
  "user_sessions_table
     (snd (auth_callback fetch_sample_creds (Some (ustr ''code''))
        (snd (auth_callback fetch_sample_creds (Some (ustr ''code'')) empty_db)))) =
   user_sessions_table (snd (auth_callback fetch_sample_creds (Some (ustr ''code'')) empty_db)) \<and>
   length (filter (\<lambda>s. access_token s = creds_token sample_creds)
     (user_sessions_table
       (snd (auth_callback fetch_sample_creds (Some (ustr ''code''))
         (snd (auth_callback fetch_sample_creds (Some (ustr ''code'')) empty_db)))))) = 1"
proof -
  have code: "ustr ''code'' \<noteq> []"
    by (simp add: ustr_def)
  have fetched: "fetch_sample_creds (ustr ''code'') = Inr sample_creds"
    by (simp add: fetch_sample_creds_def)
  have inv: "one_session_per_token empty_db"
    by (simp add: one_session_per_token_def empty_db_def)
  from auth_callback_idempotent
      [where c = "ustr ''code''" and c' = "ustr ''code''" and creds = sample_creds
         and creds' = sample_creds and fetch_token = fetch_sample_creds
         and fetch_token' = fetch_sample_creds and db = empty_db,
       OF code fetched code fetched refl refl refl] inv
  show ?thesis by blast
qed

subsection \<open>Posting a comment\<close>

lemma remote_insert_sent_one: "length (snd (remote_insert yt video_id comment parent_id)) = 1"
  by (simp add: remote_insert_def post_comment_def reply_to_comment_def Let_def split: option.splits)

lemma insert_comment_accepted:
  "accepts_comment fits_index video_id yt_id parent_id comment \<Longrightarrow>
   yt_id \<notin> youtube_comment_id ` set (comments_table db) \<Longrightarrow>
   \<exists>row db'. insert_comment fits_index db video_id yt_id parent_id comment = (Inr row, db') \<and>
     comments_table db' = comments_table db @ [row] \<and>
     notes_table db' = notes_table db \<and> user_sessions_table db' = user_sessions_table db \<and>
     logs_table db' = logs_table db \<and>
     youtube_comment_id row = yt_id \<and> comment_video_id row = video_id \<and>
     comment_text row = comment \<and> parent_youtube_id row = parent_id"
  by (simp add: insert_comment_def accepts_comment_def storable_refusal_None Let_def)

lemma insert_comment_refused:
  "\<not> accepts_comment fits_index video_id yt_id parent_id comment \<or>
     yt_id \<in> youtube_comment_id ` set (comments_table db) \<Longrightarrow>
   \<exists>e db'. insert_comment fits_index db video_id yt_id parent_id comment = (Inl e, db') \<and>
     comments_table db' = comments_table db \<and>
     notes_table db' = notes_table db \<and> user_sessions_table db' = user_sessions_table db \<and>
     logs_table db' = logs_table db"
proof (cases "list_all storable (comment_params video_id yt_id parent_id comment)")
  case False
  from unstorable_refusal_Some [OF this] obtain e where
    "driver_refusal (comment_params video_id yt_id parent_id comment) = Some e" ..
  then show ?thesis by (simp add: insert_comment_def)
next
  case True
  assume "\<not> accepts_comment fits_index video_id yt_id parent_id comment \<or>
     yt_id \<in> youtube_comment_id ` set (comments_table db)"
  with True have "\<not> fits_index video_id \<or> \<not> fits_index yt_id \<or>
      yt_id \<in> youtube_comment_id ` set (comments_table db)"
    by (auto simp: accepts_comment_def)
  with True show ?thesis
    by (auto simp: insert_comment_def storable_refusal_None Let_def)
qed

lemma add_comment_remote_failed:
  "resolve_client build authorization db = Inr yt \<Longrightarrow>
   remote_insert yt video_id comment parent_id = (Inl e, sent) \<Longrightarrow>
   add_comment build fits_index video_id comment parent_id authorization db =
     (Inl (HTTPException 400 (ustr ''YouTube API error: '' @ str_exn e)), db, sent)"
  by (simp add: add_comment_def)

lemma add_comment_accepted:
  "resolve_client build authorization db = Inr yt \<Longrightarrow>
   remote_insert yt video_id comment parent_id = (Inr yt_id, sent) \<Longrightarrow>
   accepts_comment fits_index video_id yt_id parent_id comment \<Longrightarrow>
   yt_id \<notin> youtube_comment_id ` set (comments_table db) \<Longrightarrow>
   \<exists>row db'. add_comment build fits_index video_id comment parent_id authorization db =
       (Inr row, db', sent) \<and>
     comments_table db' = comments_table db @ [row] \<and>
     youtube_comment_id row = yt_id \<and> comment_video_id row = video_id \<and>
     comment_text row = comment \<and> parent_youtube_id row = parent_id"
proof -
  assume r: "resolve_client build authorization db = Inr yt"
    and ri: "remote_insert yt video_id comment parent_id = (Inr yt_id, sent)"
    and "accepts_comment fits_index video_id yt_id parent_id comment"
    and "yt_id \<notin> youtube_comment_id ` set (comments_table db)"
  from insert_comment_accepted [OF this(3,4)] obtain row db1 where
    "insert_comment fits_index db video_id yt_id parent_id comment = (Inr row, db1)"
    "comments_table db1 = comments_table db @ [row]"
    "youtube_comment_id row = yt_id" "comment_video_id row = video_id"
    "comment_text row = comment" "parent_youtube_id row = parent_id"
    by blast
  with r ri show ?thesis by (simp add: add_comment_def)
qed

lemma add_comment_refused:
  "resolve_client build authorization db = Inr yt \<Longrightarrow>
   remote_insert yt video_id comment parent_id = (Inr yt_id, sent) \<Longrightarrow>
   \<not> accepts_comment fits_index video_id yt_id parent_id comment \<or>
     yt_id \<in> youtube_comment_id ` set (comments_table db) \<Longrightarrow>
   \<exists>e db'. add_comment build fits_index video_id comment parent_id authorization db =
       (Inl (ServerError e), db', sent) \<and>
     comments_table db' = comments_table db \<and> notes_table db' = notes_table db \<and>
     user_sessions_table db' = user_sessions_table db \<and> logs_table db' = logs_table db"
proof -
  assume r: "resolve_client build authorization db = Inr yt"
    and ri: "remote_insert yt video_id comment parent_id = (Inr yt_id, sent)"
    and "\<not> accepts_comment fits_index video_id yt_id parent_id comment \<or>
     yt_id \<in> youtube_comment_id ` set (comments_table db)"
  from insert_comment_refused [OF this(3)] obtain e db1 where
    "insert_comment fits_index db video_id yt_id parent_id comment = (Inl e, db1)"
    "comments_table db1 = comments_table db" "notes_table db1 = notes_table db"
    "user_sessions_table db1 = user_sessions_table db" "logs_table db1 = logs_table db"
    by blast
  with r ri show ?thesis by (simp add: add_comment_def)
qed

text \<open>
  Claim C1, amended. A comment-creation request with a session on file sends exactly one
  insert to the platform. If that fails, the request ends with status 400 and the database
  is as it was. If it succeeds with an id that is not mirrored yet and the database accepts
  the row (every string of the statement can be sent, and the two indexed values fit an
  index entry), one row is appended to the comments table, with the id returned, the video,
  the text and the parent. If it succeeds and the database does not accept the row, or the
  id is mirrored already, the request ends with a server error and every table is as it
  was. After a success with a row that the database accepts, a mirror that held no remote
  id twice holds exactly one row with the id returned.
\<close>

theorem add_comment_remote_then_mirror:
  "resolve_client build authorization db = Inr yt \<Longrightarrow>
   remote_insert yt video_id comment parent_id = (outcome, sent) \<Longrightarrow>
   length sent = 1 \<and>
   (\<forall>e. outcome = Inl e \<longrightarrow>
      add_comment build fits_index video_id comment parent_id authorization db =
        (Inl (HTTPException 400 (ustr ''YouTube API error: '' @ str_exn e)), db, sent)) \<and>
   (\<forall>yt_id. outcome = Inr yt_id \<longrightarrow>
      accepts_comment fits_index video_id yt_id parent_id comment \<longrightarrow>
      yt_id \<notin> youtube_comment_id ` set (comments_table db) \<longrightarrow>
      (\<exists>row db'. add_comment build fits_index video_id comment parent_id authorization db =
           (Inr row, db', sent) \<and>
         comments_table db' = comments_table db @ [row] \<and>
         youtube_comment_id row = yt_id \<and> comment_video_id row = video_id \<and>
         comment_text row = comment \<and> parent_youtube_id row = parent_id)) \<and>
   (\<forall>yt_id. outcome = Inr yt_id \<longrightarrow>
      \<not> accepts_comment fits_index video_id yt_id parent_id comment \<or>
        yt_id \<in> youtube_comment_id ` set (comments_table db) \<longrightarrow>
      (\<exists>e db'. add_comment build fits_index video_id comment parent_id authorization db =
           (Inl (ServerError e), db', sent) \<and>
         comments_table db' = comments_table db \<and> notes_table db' = notes_table db \<and>
         user_sessions_table db' = user_sessions_table db \<and> logs_table db' = logs_table db)) \<and>
   (\<forall>yt_id. outcome = Inr yt_id \<longrightarrow>
      accepts_comment fits_index video_id yt_id parent_id comment \<longrightarrow>
      remote_ids_distinct db \<longrightarrow>
      length (filter (\<lambda>c. youtube_comment_id c = yt_id)
        (comments_table
          (fst (snd (add_comment build fits_index video_id comment parent_id authorization db))))) = 1)"
proof (intro conjI allI impI)
  assume r: "resolve_client build authorization db = Inr yt"
    and ri: "remote_insert yt video_id comment parent_id = (outcome, sent)"
  from ri remote_insert_sent_one [of yt video_id comment parent_id]
  show "length sent = 1" by simp
  {
    fix e assume "outcome = Inl e"
    with r ri show "add_comment build fits_index video_id comment parent_id authorization db =
        (Inl (HTTPException 400 (ustr ''YouTube API error: '' @ str_exn e)), db, sent)"
      by (simp add: add_comment_remote_failed)
  }
  {
    fix yt_id
    assume "outcome = Inr yt_id" "accepts_comment fits_index video_id yt_id parent_id comment"
      "yt_id \<notin> youtube_comment_id ` set (comments_table db)"
    with r ri show "\<exists>row db'. add_comment build fits_index video_id comment parent_id authorization db =
           (Inr row, db', sent) \<and>
         comments_table db' = comments_table db @ [row] \<and>
         youtube_comment_id row = yt_id \<and> comment_video_id row = video_id \<and>
         comment_text row = comment \<and> parent_youtube_id row = parent_id"
      by (simp add: add_comment_accepted)
  }
  {
    fix yt_id
    assume "outcome = Inr yt_id"
      "\<not> accepts_comment fits_index video_id yt_id parent_id comment \<or>
        yt_id \<in> youtube_comment_id ` set (comments_table db)"
    with r ri show "\<exists>e db'. add_comment build fits_index video_id comment parent_id authorization db =
           (Inl (ServerError e), db', sent) \<and>
         comments_table db' = comments_table db \<and> notes_table db' = notes_table db \<and>
         user_sessions_table db' = user_sessions_table db \<and> logs_table db' = logs_table db"
      by (simp add: add_comment_refused)
  }
  fix yt_id
  assume ok: "outcome = Inr yt_id"
    and acc: "accepts_comment fits_index video_id yt_id parent_id comment"
    and d: "remote_ids_distinct db"
  let ?db' = "fst (snd (add_comment build fits_index video_id comment parent_id authorization db))"
  show "length (filter (\<lambda>c. youtube_comment_id c = yt_id) (comments_table ?db')) = 1"
  proof (cases "yt_id \<in> youtube_comment_id ` set (comments_table db)")
    case True
    then have "\<not> accepts_comment fits_index video_id yt_id parent_id comment \<or>
        yt_id \<in> youtube_comment_id ` set (comments_table db)" by simp
    from add_comment_refused [OF r ri [unfolded ok] this]
    have "comments_table ?db' = comments_table db" by auto
    moreover from d have "distinct (map youtube_comment_id (comments_table db))"
      by (simp add: remote_ids_distinct_def)
    ultimately show ?thesis
      using distinct_key_count [OF _ True] by simp
  next
    case False
    from add_comment_accepted [OF r ri [unfolded ok] acc False]
    obtain row where "comments_table ?db' = comments_table db @ [row]" "youtube_comment_id row = yt_id"
      by auto
    moreover from False have "filter (\<lambda>c. youtube_comment_id c = yt_id) (comments_table db) = []"
      by (auto simp: filter_empty_conv)
    ultimately show ?thesis by simp
  qed
qed

lemma remote_insert_client_ok:
  "remote_insert client_ok (ustr ''vid'') (ustr ''hi'') None =
     (Inr (ustr ''c2''), snd (post_comment client_ok (ustr ''vid'') (ustr ''hi'')))"
  by (simp add: remote_insert_def post_comment_def client_ok_def Let_def)

lemma c2_fresh: "ustr ''c2'' \<notin> youtube_comment_id ` set (comments_table sample_db)"
  by (simp add: sample_db_def sample_comment_def ustr_def)

lemma c2_accepted:
  "accepts_comment every_value_fits (ustr ''vid'') (ustr ''c2'') None (ustr ''hi'')"
  by (simp add: accepts_comment_def comment_params_def storable_def every_value_fits_def ustr_def)

theorem add_comment_remote_then_mirror_witness:
  "\<exists>row db'. add_comment build_ok every_value_fits (ustr ''vid'') (ustr ''hi'') None bearer_tok sample_db =
       (Inr row, db', snd (post_comment client_ok (ustr ''vid'') (ustr ''hi''))) \<and>
     comments_table db' = comments_table sample_db @ [row] \<and>
     youtube_comment_id row = ustr ''c2''"
  using add_comment_remote_then_mirror [OF resolve_client_ok remote_insert_client_ok,
      of every_value_fits] c2_fresh c2_accepted
  by blast

text \<open>
  A comment whose text holds U+0000: the platform took it, the driver refuses the insert,
  and the database is as it was.
\<close>

lemma add_comment_nul_text:
  "fst (remote_insert client_ok (ustr ''vid'') [104, 0, 105] None) = Inr (ustr ''c2'') \<and>
   fst (add_comment build_ok every_value_fits (ustr ''vid'') [104, 0, 105] None bearer_tok sample_db) =
     Inl (ServerError (ValueError (ustr ''A string literal cannot contain NUL (0x00) characters.''))) \<and>
   fst (snd (add_comment build_ok every_value_fits (ustr ''vid'') [104, 0, 105] None bearer_tok
     sample_db)) = sample_db"
proof -
  have "remote_insert client_ok (ustr ''vid'') [104, 0, 105] None =
      (Inr (ustr ''c2''), snd (post_comment client_ok (ustr ''vid'') [104, 0, 105]))"
    by (simp add: remote_insert_def post_comment_def client_ok_def Let_def)
  moreover have "insert_comment every_value_fits sample_db (ustr ''vid'') (ustr ''c2'') None [104, 0, 105] =
      (Inl (ValueError (ustr ''A string literal cannot contain NUL (0x00) characters.'')), sample_db)"
    by (simp add: insert_comment_def driver_refusal_def driver_error_def comment_params_def
        storable_def ustr_def)
  ultimately show ?thesis
    by (simp add: add_comment_def resolve_client_ok)
qed

lemma remote_insert_client_same_id:
  "remote_insert client_same_id (ustr ''vid'') (ustr ''again'') None =
     (Inr (ustr ''c1''), snd (post_comment client_same_id (ustr ''vid'') (ustr ''again'')))"
  by (simp add: remote_insert_def post_comment_def client_same_id_def client_ok_def Let_def)

lemma c1_on_file: "ustr ''c1'' \<in> youtube_comment_id ` set (comments_table sample_db)"
  by (simp add: sample_db_def sample_comment_def)

text \<open>
  Claim C1 as stated fails when the platform returns an id that is mirrored already: the
  remote insert succeeded, and the comments table holds the rows it held.
\<close>

theorem add_comment_same_id_counterexample:
  "fst (remote_insert client_same_id (ustr ''vid'') (ustr ''again'') None) = Inr (ustr ''c1'') \<and>
   comments_table (fst (snd (add_comment build_same_id every_value_fits (ustr ''vid'') (ustr ''again'')
      None bearer_tok sample_db))) = comments_table sample_db"
proof -
  have "\<not> accepts_comment every_value_fits (ustr ''vid'') (ustr ''c1'') None (ustr ''again'') \<or>
      ustr ''c1'' \<in> youtube_comment_id ` set (comments_table sample_db)"
    using c1_on_file by simp
  from add_comment_refused [OF resolve_client_same_id remote_insert_client_same_id this]
  have "comments_table (fst (snd (add_comment build_same_id every_value_fits (ustr ''vid'')
      (ustr ''again'') None bearer_tok sample_db))) = comments_table sample_db"
    by auto
  moreover have "fst (remote_insert client_same_id (ustr ''vid'') (ustr ''again'') None) =
      Inr (ustr ''c1'')"
    using remote_insert_client_same_id by simp
  ultimately show ?thesis by simp
qed

subsection \<open>Deleting a comment\<close>

lemma remove_comment_absent:
  "resolve_client build authorization db = Inr yt \<Longrightarrow>
   cid \<notin> comment_id ` set (comments_table db) \<Longrightarrow>
   remove_comment build cid authorization db =
     (Inl (HTTPException 404 (ustr ''Comment not found in local DB.'')), db, [])"
proof -
  assume r: "resolve_client build authorization db = Inr yt"
    and "cid \<notin> comment_id ` set (comments_table db)"
  then have "find (\<lambda>c. comment_id c = cid) (comments_table db) = None"
    by (auto simp: find_None_iff)
  with r show ?thesis by (simp add: remove_comment_def)
qed

lemma remove_comment_loaded:
  "resolve_client build authorization db = Inr yt \<Longrightarrow>
   find (\<lambda>c. comment_id c = cid) (comments_table db) = Some row \<Longrightarrow>
   (\<forall>e. comments_delete yt (youtube_comment_id row) = Inl e \<longrightarrow>
      remove_comment build cid authorization db =
        (Inl (HTTPException 400 (ustr ''YouTube API error: '' @ str_exn e)), db,
         [CommentsDelete (youtube_comment_id row)])) \<and>
   (comments_delete yt (youtube_comment_id row) = Inr () \<longrightarrow>
      (\<exists>response db'. remove_comment build cid authorization db =
         (Inr response, db', [CommentsDelete (youtube_comment_id row)]) \<and>
         comments_table db' = filter (\<lambda>c. comment_id c \<noteq> comment_id row) (comments_table db)))"
  by (auto simp: remove_comment_def delete_comment_def Let_def)

text \<open>
  Claim C2, amended. A deletion request whose session resolves: if no row of the comments
  table has the local id, the handler answers 404 and sends nothing to the platform. If a
  row has it (ids being distinct), the handler sends exactly one delete, for the remote id
  stored in that row; if the delete fails it answers 400 and leaves the database as it was,
  and if the delete succeeds it removes that row and no other.
\<close>

theorem remove_comment_by_local_id:
  "resolve_client build authorization db = Inr yt \<Longrightarrow>
   (cid \<notin> comment_id ` set (comments_table db) \<longrightarrow>
      remove_comment build cid authorization db =
        (Inl (HTTPException 404 (ustr ''Comment not found in local DB.'')), db, [])) \<and>
   (\<forall>row. row \<in> set (comments_table db) \<longrightarrow> comment_id row = cid \<longrightarrow> comment_ids_distinct db \<longrightarrow>
      snd (snd (remove_comment build cid authorization db)) = [CommentsDelete (youtube_comment_id row)] \<and>
      (\<forall>e. comments_delete yt (youtube_comment_id row) = Inl e \<longrightarrow>
         remove_comment build cid authorization db =
           (Inl (HTTPException 400 (ustr ''YouTube API error: '' @ str_exn e)), db,
            [CommentsDelete (youtube_comment_id row)])) \<and>
      (comments_delete yt (youtube_comment_id row) = Inr () \<longrightarrow>
         (\<exists>response db'. remove_comment build cid authorization db =
            (Inr response, db', [CommentsDelete (youtube_comment_id row)]) \<and>
            comments_table db' = remove1 row (comments_table db) \<and>
            row \<notin> set (comments_table db') \<and>
            length (comments_table db') + 1 = length (comments_table db))))"
proof (intro conjI allI impI)
  assume r: "resolve_client build authorization db = Inr yt"
  {
    assume "cid \<notin> comment_id ` set (comments_table db)"
    with r show "remove_comment build cid authorization db =
        (Inl (HTTPException 404 (ustr ''Comment not found in local DB.'')), db, [])"
      by (rule remove_comment_absent)
  }
  fix row
  assume row: "row \<in> set (comments_table db)" "comment_id row = cid" "comment_ids_distinct db"
  then have d: "distinct (map comment_id (comments_table db))"
    by (simp add: comment_ids_distinct_def)
  from find_by_key [OF d row(1)] row(2)
  have f: "find (\<lambda>c. comment_id c = cid) (comments_table db) = Some row" by simp
  note loaded = remove_comment_loaded [OF r f]
  have rows: "distinct (comments_table db)"
    using d by (rule distinct_map [THEN iffD1, THEN conjunct1])
  show "snd (snd (remove_comment build cid authorization db)) = [CommentsDelete (youtube_comment_id row)]"
  proof (cases "comments_delete yt (youtube_comment_id row)")
    case (Inl e)
    with loaded show ?thesis by simp
  next
    case (Inr u)
    with loaded show ?thesis by auto
  qed
  {
    fix e assume "comments_delete yt (youtube_comment_id row) = Inl e"
    with loaded show "remove_comment build cid authorization db =
           (Inl (HTTPException 400 (ustr ''YouTube API error: '' @ str_exn e)), db,
            [CommentsDelete (youtube_comment_id row)])" by simp
  }
  assume "comments_delete yt (youtube_comment_id row) = Inr ()"
  with loaded obtain response db' where
    rc: "remove_comment build cid authorization db =
         (Inr response, db', [CommentsDelete (youtube_comment_id row)])"
    and tbl: "comments_table db' = filter (\<lambda>c. comment_id c \<noteq> comment_id row) (comments_table db)"
    by blast
  from tbl filter_key_remove1 [OF d row(1)]
  have rm: "comments_table db' = remove1 row (comments_table db)" by simp
  moreover from rm rows have "row \<notin> set (comments_table db')" by simp
  moreover from rm row(1) have "length (comments_table db') + 1 = length (comments_table db)"
    by (simp add: length_remove1) (cases "comments_table db", auto)
  ultimately show "\<exists>response db'. remove_comment build cid authorization db =
            (Inr response, db', [CommentsDelete (youtube_comment_id row)]) \<and>
            comments_table db' = remove1 row (comments_table db) \<and>
            row \<notin> set (comments_table db') \<and>
            length (comments_table db') + 1 = length (comments_table db)"
    using rc by blast
qed

lemma sample_comment_on_file:
  "find (\<lambda>c. comment_id c = 1) (comments_table sample_db) = Some sample_comment"
  by (simp add: sample_db_def sample_comment_def)

theorem remove_comment_by_local_id_witness:
  "\<exists>response db'. remove_comment build_ok 1 bearer_tok sample_db =
       (Inr response, db', [CommentsDelete (ustr ''c1'')]) \<and>
     comments_table db' = []"
proof -
  have row: "sample_comment \<in> set (comments_table sample_db)" "comment_id sample_comment = 1"
    "comment_ids_distinct sample_db"
    by (simp_all add: sample_db_def sample_comment_def comment_ids_distinct_def)
  have deleted: "comments_delete client_ok (youtube_comment_id sample_comment) = Inr ()"
    by (simp add: client_ok_def)
  have stored: "youtube_comment_id sample_comment = ustr ''c1''"
    "remove1 sample_comment (comments_table sample_db) = []"
    by (simp_all add: sample_db_def sample_comment_def)
  note removed = remove_comment_by_local_id [OF resolve_client_ok, of 1,
      THEN conjunct2, rule_format, OF row, THEN conjunct2, THEN conjunct2, rule_format, OF deleted]
  with stored show ?thesis by auto
qed

text \<open>
  Claim C2 as stated fails where the row exists and the remote delete raises: the row is
  still in the table afterwards.
\<close>

theorem remove_comment_remote_failure_counterexample:
  "sample_comment \<in> set (comments_table sample_db) \<and> comment_id sample_comment = 1 \<and>
   remove_comment build_down 1 bearer_tok sample_db =
     (Inl (HTTPException 400 (ustr ''YouTube API error: '' @ ustr ''quotaExceeded'')), sample_db,
      [CommentsDelete (ustr ''c1'')])"
proof -
  have "comments_delete client_down (youtube_comment_id sample_comment) =
      Inl (RemoteError (ustr ''quotaExceeded''))"
    by (simp add: client_down_def)
  with remove_comment_loaded [OF resolve_client_down sample_comment_on_file]
  show ?thesis by (simp add: sample_db_def sample_comment_def)
qed

subsection \<open>Logout\<close>

text \<open>
  Claim C4, amended. On logout with a well-formed bearer header, the session row of the
  token is deleted whenever the revocation request comes back with a response, whatever
  its status; the row is kept only when the request itself raises, in which case the
  handler ends in a server error.
\<close>

theorem logout_deletes_session:
  "get_token_from_header authorization = Inr token \<Longrightarrow>
   (\<forall>e. requests_post (ustr ''https://oauth2.googleapis.com/revoke?token='' @ token) = Inl e \<longrightarrow>
      logout requests_post authorization db = (Inl (ServerError e), db)) \<and>
   (\<forall>status_code.
      requests_post (ustr ''https://oauth2.googleapis.com/revoke?token='' @ token) = Inr status_code \<longrightarrow>
      (\<exists>db'. logout requests_post authorization db =
          (Inr (JObj [(ustr ''message'', JStr (ustr ''Logged out successfully.''))]), db') \<and>
        user_sessions_table db' = filter (\<lambda>s. access_token s \<noteq> token) (user_sessions_table db) \<and>
        token \<notin> access_token ` set (user_sessions_table db')))"
  by (auto simp: logout_def Let_def)

theorem logout_deletes_session_witness:
  "\<exists>db'. logout revoke_accepted bearer_tok sample_db =
      (Inr (JObj [(ustr ''message'', JStr (ustr ''Logged out successfully.''))]), db') \<and>
    ustr ''tok'' \<notin> access_token ` set (user_sessions_table db')"
proof -
  have "revoke_accepted (ustr ''https://oauth2.googleapis.com/revoke?token='' @ ustr ''tok'') = Inr 200"
    by (simp add: revoke_accepted_def)
  with logout_deletes_session [OF bearer_tok_token, of revoke_accepted sample_db]
  show ?thesis by blast
qed

text \<open>
  Claim C4 as stated fails where the provider refuses the revocation with status 400: the
  session row is removed all the same.
\<close>

theorem logout_refused_revocation_counterexample:
  "\<not> revocation_succeeded (revoke_refused (ustr ''https://oauth2.googleapis.com/revoke?token=tok'')) \<and>
   ustr ''tok'' \<in> access_token ` set (user_sessions_table sample_db) \<and>
   user_sessions_table (snd (logout revoke_refused bearer_tok sample_db)) = []"
  by (simp add: revocation_succeeded_def revoke_refused_def logout_def bearer_tok_token Let_def
      sample_db_def)

subsection \<open>Reading a video\<close>

lemma get_video_remote_error:
  "resolve_client build authorization db = Inr yt \<Longrightarrow>
   videos_list yt (ustr ''snippet,statistics'') video_id = Inl e \<Longrightarrow>
   get_video build video_id authorization db =
     (Inl (ServerError e), db, [VideosList (ustr ''snippet,statistics'') video_id])"
  by (simp add: get_video_def fetch_video_details_def Let_def)

lemma get_video_absent:
  "resolve_client build authorization db = Inr yt \<Longrightarrow>
   videos_list yt (ustr ''snippet,statistics'') video_id = Inr (JObj [(ustr ''items'', JArr [])]) \<Longrightarrow>
   get_video build video_id authorization db =
     (Inl (HTTPException 404 (ustr ''Video '' @ video_id @ ustr '' not found on YouTube.'')), db,
      [VideosList (ustr ''snippet,statistics'') video_id])"
  by (simp add: get_video_def fetch_video_details_def Let_def)

lemma get_comments_remote_error:
  "resolve_client build authorization db = Inr yt \<Longrightarrow>
   commentThreads_list yt (ustr ''snippet,replies'') video_id 50 (ustr ''plainText'') = Inl e \<Longrightarrow>
   get_comments build video_id authorization db =
     (Inl (HTTPException 400 (ustr ''YouTube API error: '' @ str_exn e)), db,
      [CommentThreadsList (ustr ''snippet,replies'') video_id 50 (ustr ''plainText'')])"
  by (simp add: get_comments_def fetch_video_comments_def Let_def)

text \<open>
  Claim C5. With a valid session and the platform failing the request, \<open>get_video\<close> does
  not answer 400: \<open>fetch_video_details\<close> is called outside any \<^verbatim>\<open>try\<close>, the exception
  leaves the handler and the request ends in a server error. The sibling route
  \<open>get_comments\<close> catches the same failure and answers 400.
\<close>

theorem get_video_remote_error_unhandled:
  "get_video build_down (ustr ''vid'') bearer_tok sample_db =
     (Inl (ServerError (RemoteError (ustr ''quotaExceeded''))), sample_db,
      [VideosList (ustr ''snippet,statistics'') (ustr ''vid'')]) \<and>
   get_comments build_down (ustr ''vid'') bearer_tok sample_db =
     (Inl (HTTPException 400 (ustr ''YouTube API error: '' @ ustr ''quotaExceeded'')), sample_db,
      [CommentThreadsList (ustr ''snippet,replies'') (ustr ''vid'') 50 (ustr ''plainText'')])"
proof -
  have down: "videos_list client_down (ustr ''snippet,statistics'') (ustr ''vid'') =
      Inl (RemoteError (ustr ''quotaExceeded''))"
    "commentThreads_list client_down (ustr ''snippet,replies'') (ustr ''vid'') 50 (ustr ''plainText'') =
      Inl (RemoteError (ustr ''quotaExceeded''))"
    by (simp_all add: client_down_def)
  show ?thesis
    using get_video_remote_error [OF resolve_client_down down(1)]
      get_comments_remote_error [OF resolve_client_down down(2)]
    by simp
qed

subsection \<open>Updating the metadata of a video\<close>

lemma setitem_fields:
  "setitem j k v = Inr j' \<Longrightarrow> \<exists>fields. j = JObj fields \<and> j' = JObj (AList.update k v fields)"
  by (cases j) auto

lemma update_video_info_sent:
  "snd (update_video_info yt video_id new_title description) = [VideosList (ustr ''snippet'') video_id] \<or>
   (\<exists>video_data items item fields.
      videos_list yt (ustr ''snippet'') video_id = Inr video_data \<and>
      get_default video_data (ustr ''items'') (JArr []) = Inr items \<and>
      truthy items \<and> index0 items = Inr item \<and>
      getitem item (ustr ''snippet'') = Inr (JObj fields) \<and>
      update_video_info yt video_id new_title description =
        (let body = JObj [(ustr ''id'', JStr video_id),
                          (ustr ''snippet'',
                           JObj (AList.update (ustr ''description'') (JStr description)
                                  (AList.update (ustr ''title'') (JStr new_title) fields)))]
         in (videos_update yt (ustr ''snippet'') body,
             [VideosList (ustr ''snippet'') video_id, VideosUpdate (ustr ''snippet'') body])))"
  by (auto simp: update_video_info_def Let_def split: sum.splits dest!: setitem_fields)

lemma update_video_info_failed_before_update:
  "snd (update_video_info yt video_id new_title description) = [VideosList (ustr ''snippet'') video_id] \<Longrightarrow>
   \<exists>e. fst (update_video_info yt video_id new_title description) = Inl e"
  by (auto simp: update_video_info_def Let_def split: sum.splits if_splits)


text \<open>
  Claim C6. \<open>update_video_info\<close> always begins with the fetch of the snippet. An update is
  sent only as the second request, after that fetch returned a video whose snippet is a
  dict; the snippet sent holds the new title and the new description and agrees with the
  snippet fetched on every other key. A successful run has sent the update.
\<close>

theorem update_video_info_read_modify_write:
  "update_video_info yt video_id new_title description = (outcome, sent) \<Longrightarrow>
   sent \<noteq> [] \<and> hd sent = VideosList (ustr ''snippet'') video_id \<and>
   (\<forall>part body. VideosUpdate part body \<in> set sent \<longrightarrow>
      (\<exists>video_data items item fields merged.
         videos_list yt (ustr ''snippet'') video_id = Inr video_data \<and>
         get_default video_data (ustr ''items'') (JArr []) = Inr items \<and>
         index0 items = Inr item \<and>
         getitem item (ustr ''snippet'') = Inr (JObj fields) \<and>
         part = ustr ''snippet'' \<and>
         body = JObj [(ustr ''id'', JStr video_id), (ustr ''snippet'', JObj merged)] \<and>
         map_of merged (ustr ''title'') = Some (JStr new_title) \<and>
         map_of merged (ustr ''description'') = Some (JStr description) \<and>
         (\<forall>k. k \<noteq> ustr ''title'' \<longrightarrow> k \<noteq> ustr ''description'' \<longrightarrow> map_of merged k = map_of fields k) \<and>
         sent = [VideosList (ustr ''snippet'') video_id, VideosUpdate part body] \<and>
         outcome = videos_update yt part body)) \<and>
   (\<forall>updated. outcome = Inr updated \<longrightarrow> (\<exists>body. VideosUpdate (ustr ''snippet'') body \<in> set sent))"
proof -
  assume run: "update_video_info yt video_id new_title description = (outcome, sent)"
  have title_description: "ustr ''title'' \<noteq> ustr ''description''"
    by (simp add: ustr_def)
  from update_video_info_sent [of yt video_id new_title description]
  show ?thesis
  proof (elim disjE exE conjE)
    assume only_fetch: "snd (update_video_info yt video_id new_title description) =
        [VideosList (ustr ''snippet'') video_id]"
    with run have sent: "sent = [VideosList (ustr ''snippet'') video_id]" by simp
    from update_video_info_failed_before_update [OF only_fetch] run
    obtain e where "outcome = Inl e" by auto
    with sent show ?thesis by simp
  next
    fix video_data items item fields
    assume fetched: "videos_list yt (ustr ''snippet'') video_id = Inr video_data"
      "get_default video_data (ustr ''items'') (JArr []) = Inr items"
      "index0 items = Inr item" "getitem item (ustr ''snippet'') = Inr (JObj fields)"
    let ?merged = "AList.update (ustr ''description'') (JStr description)
                     (AList.update (ustr ''title'') (JStr new_title) fields)"
    let ?body = "JObj [(ustr ''id'', JStr video_id), (ustr ''snippet'', JObj ?merged)]"
    assume "update_video_info yt video_id new_title description =
        (let body = ?body
         in (videos_update yt (ustr ''snippet'') body,
             [VideosList (ustr ''snippet'') video_id, VideosUpdate (ustr ''snippet'') body]))"
    with run have outcome: "outcome = videos_update yt (ustr ''snippet'') ?body"
      and sent: "sent = [VideosList (ustr ''snippet'') video_id, VideosUpdate (ustr ''snippet'') ?body]"
      by (simp_all add: Let_def)
    have merged: "map_of ?merged (ustr ''title'') = Some (JStr new_title)"
      "map_of ?merged (ustr ''description'') = Some (JStr description)"
      "\<forall>k. k \<noteq> ustr ''title'' \<longrightarrow> k \<noteq> ustr ''description'' \<longrightarrow> map_of ?merged k = map_of fields k"
      using title_description by (simp_all add: update_conv')
    show ?thesis
    proof (intro conjI allI impI)
      show "sent \<noteq> []" "hd sent = VideosList (ustr ''snippet'') video_id"
        using sent by simp_all
    next
      fix part body
      assume "VideosUpdate part body \<in> set sent"
      with sent have "part = ustr ''snippet''" "body = ?body" by simp_all
      with fetched merged sent outcome
      show "\<exists>video_data items item fields merged.
         videos_list yt (ustr ''snippet'') video_id = Inr video_data \<and>
         get_default video_data (ustr ''items'') (JArr []) = Inr items \<and>
         index0 items = Inr item \<and>
         getitem item (ustr ''snippet'') = Inr (JObj fields) \<and>
         part = ustr ''snippet'' \<and>
         body = JObj [(ustr ''id'', JStr video_id), (ustr ''snippet'', JObj merged)] \<and>
         map_of merged (ustr ''title'') = Some (JStr new_title) \<and>
         map_of merged (ustr ''description'') = Some (JStr description) \<and>
         (\<forall>k. k \<noteq> ustr ''title'' \<longrightarrow> k \<noteq> ustr ''description'' \<longrightarrow> map_of merged k = map_of fields k) \<and>
         sent = [VideosList (ustr ''snippet'') video_id, VideosUpdate part body] \<and>
         outcome = videos_update yt part body"
        by blast
    next
      fix updated
      show "\<exists>body. VideosUpdate (ustr ''snippet'') body \<in> set sent"
        using sent by auto
    qed
  qed
qed

text \<open>The route sends what \<open>update_video_info\<close> sends, and nothing else.\<close>

lemma update_metadata_sent:
  "resolve_client build authorization db = Inr yt \<Longrightarrow>
   snd (snd (update_metadata build pick fits_index video_id new_title description authorization db)) =
     snd (update_video_info yt video_id new_title description)"
  by (cases "update_video_info yt video_id new_title description")
    (auto simp: update_metadata_def Let_def split: sum.splits option.splits prod.splits)

lemma update_video_info_client_ok:
  "update_video_info client_ok (ustr ''vid'') (ustr ''new title'') (ustr ''new text'') =
     (Inr (JObj [(ustr ''id'', JStr (ustr ''vid'')),
                 (ustr ''snippet'',
                  JObj [(ustr ''title'', JStr (ustr ''new title'')),
                        (ustr ''categoryId'', JStr (ustr ''22'')),
                        (ustr ''tags'', JArr [JStr (ustr ''a''), JStr (ustr ''b'')]),
                        (ustr ''description'', JStr (ustr ''new text''))])]),
      [VideosList (ustr ''snippet'') (ustr ''vid''),
       VideosUpdate (ustr ''snippet'')
         (JObj [(ustr ''id'', JStr (ustr ''vid'')),
                (ustr ''snippet'',
                 JObj [(ustr ''title'', JStr (ustr ''new title'')),
                       (ustr ''categoryId'', JStr (ustr ''22'')),
                       (ustr ''tags'', JArr [JStr (ustr ''a''), JStr (ustr ''b'')]),
                       (ustr ''description'', JStr (ustr ''new text''))])])])"
  by (simp add: update_video_info_def client_ok_def sample_video_def Let_def ustr_def)

theorem update_video_info_read_modify_write_witness:
  "\<exists>body fields merged.
     snd (update_video_info client_ok (ustr ''vid'') (ustr ''new title'') (ustr ''new text'')) =
       [VideosList (ustr ''snippet'') (ustr ''vid''), VideosUpdate (ustr ''snippet'') body] \<and>
     getitem sample_video (ustr ''snippet'') = Inr (JObj fields) \<and>
     body = JObj [(ustr ''id'', JStr (ustr ''vid'')), (ustr ''snippet'', JObj merged)] \<and>
     map_of merged (ustr ''categoryId'') = map_of fields (ustr ''categoryId'') \<and>
     map_of merged (ustr ''tags'') = map_of fields (ustr ''tags'')"
proof -
  let ?body = "JObj [(ustr ''id'', JStr (ustr ''vid'')),
                (ustr ''snippet'',
                 JObj [(ustr ''title'', JStr (ustr ''new title'')),
                       (ustr ''categoryId'', JStr (ustr ''22'')),
                       (ustr ''tags'', JArr [JStr (ustr ''a''), JStr (ustr ''b'')]),
                       (ustr ''description'', JStr (ustr ''new text''))])]"
  have sent: "VideosUpdate (ustr ''snippet'') ?body \<in>
      set [VideosList (ustr ''snippet'') (ustr ''vid''), VideosUpdate (ustr ''snippet'') ?body]"
    by simp
  note rmw = update_video_info_read_modify_write [OF update_video_info_client_ok,
      THEN conjunct2, THEN conjunct2, THEN conjunct1, rule_format, OF sent]
  from rmw obtain video_data items item fields merged where
    f: "videos_list client_ok (ustr ''snippet'') (ustr ''vid'') = Inr video_data"
      "get_default video_data (ustr ''items'') (JArr []) = Inr items"
      "index0 items = Inr item" "getitem item (ustr ''snippet'') = Inr (JObj fields)"
    and b: "?body = JObj [(ustr ''id'', JStr (ustr ''vid'')), (ustr ''snippet'', JObj merged)]"
    and m: "\<forall>k. k \<noteq> ustr ''title'' \<longrightarrow> k \<noteq> ustr ''description'' \<longrightarrow> map_of merged k = map_of fields k"
    by (elim exE conjE)
  from f have "item = sample_video"
    by (auto simp: client_ok_def)
  with f have g: "getitem sample_video (ustr ''snippet'') = Inr (JObj fields)" by simp
  have "ustr ''categoryId'' \<noteq> ustr ''title''" "ustr ''categoryId'' \<noteq> ustr ''description''"
    "ustr ''tags'' \<noteq> ustr ''title''" "ustr ''tags'' \<noteq> ustr ''description''"
    by (simp_all add: ustr_def)
  with m have "map_of merged (ustr ''categoryId'') = map_of fields (ustr ''categoryId'')"
    "map_of merged (ustr ''tags'') = map_of fields (ustr ''tags'')" by simp_all
  with g b update_video_info_client_ok show ?thesis
    by (intro exI [of _ ?body] exI [of _ fields] exI [of _ merged]) simp
qed

subsection \<open>The local mirror of a metadata update\<close>

lemma first_row_mem: "first_row pick rows = Some r \<Longrightarrow> r \<in> set rows"
  by (auto simp: first_row_def split: if_splits)

lemma first_row_nonempty: "rows \<noteq> [] \<Longrightarrow> \<exists>r. first_row pick rows = Some r"
  by (simp add: first_row_def)

lemma first_row_empty: "first_row pick [] = None"
  by (simp add: first_row_def)

lemma update_metadata_description:
  "resolve_client build authorization db = Inr yt \<Longrightarrow>
   fst (update_video_info yt video_id new_title description) = Inr updated \<Longrightarrow>
   fst (update_video_info yt video_id new_title other) = Inr updated' \<Longrightarrow>
   fst (update_metadata build pick fits_index video_id new_title other authorization db) =
     fst (update_metadata build pick fits_index video_id new_title description authorization db) \<and>
   fst (snd (update_metadata build pick fits_index video_id new_title other authorization db)) =
     fst (snd (update_metadata build pick fits_index video_id new_title description authorization db))"
  by (cases "update_video_info yt video_id new_title description";
      cases "update_video_info yt video_id new_title other")
    (simp add: update_metadata_def split: sum.splits option.splits prod.splits)

lemma update_metadata_error_keeps_notes:
  "resolve_client build authorization db = Inr yt \<Longrightarrow>
   fst (update_video_info yt video_id new_title description) = Inr updated \<Longrightarrow>
   fst (update_metadata build pick fits_index video_id new_title description authorization db) = Inl err \<Longrightarrow>
   notes_table (fst (snd (update_metadata build pick fits_index video_id new_title description
      authorization db))) = notes_table db"
  by (cases "update_video_info yt video_id new_title description")
    (auto simp: update_metadata_def insert_titled_note_def set_note_title_def Let_def
      split: sum.splits option.splits prod.splits if_splits)

lemma update_metadata_found:
  "resolve_client build authorization db = Inr yt \<Longrightarrow>
   fst (update_video_info yt video_id new_title description) = Inr updated \<Longrightarrow>
   storable video_id \<Longrightarrow> storable new_title \<Longrightarrow>
   first_row pick (filter (\<lambda>n. note_video_id n = video_id) (notes_table db)) = Some row \<Longrightarrow>
   fst (update_metadata build pick fits_index video_id new_title description authorization db) =
     Inr (JObj [(ustr ''status'', JStr (ustr ''success'')),
                (ustr ''message'', JStr (ustr ''Video title and description updated on YouTube.''))]) \<and>
   notes_table (fst (snd (update_metadata build pick fits_index video_id new_title description
      authorization db))) =
     (if note_title row = Some new_title then notes_table db
      else map (\<lambda>n. if note_id n = note_id row
                    then n \<lparr> note_title := Some new_title, note_updated_at := Some (now db) \<rparr>
                    else n) (notes_table db))"
  by (cases "update_video_info yt video_id new_title description")
    (simp add: update_metadata_def select_first_note_def set_note_title_def
      storable_refusal_None)

lemma update_metadata_not_found:
  "resolve_client build authorization db = Inr yt \<Longrightarrow>
   fst (update_video_info yt video_id new_title description) = Inr updated \<Longrightarrow>
   storable video_id \<Longrightarrow> storable new_title \<Longrightarrow> fits_index video_id \<Longrightarrow>
   filter (\<lambda>n. note_video_id n = video_id) (notes_table db) = [] \<Longrightarrow>
   fst (update_metadata build pick fits_index video_id new_title description authorization db) =
     Inr (JObj [(ustr ''status'', JStr (ustr ''success'')),
                (ustr ''message'', JStr (ustr ''Video title and description updated on YouTube.''))]) \<and>
   notes_table (fst (snd (update_metadata build pick fits_index video_id new_title description
      authorization db))) =
     notes_table db @
       [\<lparr> note_id = notes_seq db, note_video_id = video_id, note_title = Some new_title,
          note_content = None, note_tags = Some [], note_created_at = now db,
          note_updated_at = None \<rparr>]"
  by (cases "update_video_info yt video_id new_title description")
    (simp add: update_metadata_def select_first_note_def insert_titled_note_def
      storable_refusal_None first_row_empty Let_def)

lemma update_metadata_refused:
  "resolve_client build authorization db = Inr yt \<Longrightarrow>
   fst (update_video_info yt video_id new_title description) = Inr updated \<Longrightarrow>
   \<not> storable video_id \<or>
     \<not> storable new_title \<and> (\<forall>n \<in> set (notes_table db). note_title n \<noteq> Some new_title) \<Longrightarrow>
   \<exists>e. fst (update_metadata build pick fits_index video_id new_title description authorization db) =
     Inl (ServerError e)"
proof (cases "storable video_id")
  case False
  assume r: "resolve_client build authorization db = Inr yt"
    and ok: "fst (update_video_info yt video_id new_title description) = Inr updated"
  from False unstorable_refusal_Some [of "[video_id]"] obtain e where
    "driver_refusal [video_id] = Some e" by auto
  with r ok show ?thesis
    by (cases "update_video_info yt video_id new_title description")
      (simp add: update_metadata_def select_first_note_def)
next
  case True
  assume r: "resolve_client build authorization db = Inr yt"
    and ok: "fst (update_video_info yt video_id new_title description) = Inr updated"
    and "\<not> storable video_id \<or>
     \<not> storable new_title \<and> (\<forall>n \<in> set (notes_table db). note_title n \<noteq> Some new_title)"
  with True have t: "\<not> storable new_title"
    and fresh: "\<forall>n \<in> set (notes_table db). note_title n \<noteq> Some new_title" by auto
  from t unstorable_refusal_Some [of "[new_title]"] obtain e1 where
    e1: "driver_refusal [new_title] = Some e1" by auto
  from t unstorable_refusal_Some [of "[video_id, new_title]"] obtain e2 where
    e2: "driver_refusal [video_id, new_title] = Some e2" by auto
  show ?thesis
  proof (cases "first_row pick (filter (\<lambda>n. note_video_id n = video_id) (notes_table db))")
    case None
    with r ok True e2 show ?thesis
      by (cases "update_video_info yt video_id new_title description")
        (simp add: update_metadata_def select_first_note_def insert_titled_note_def
          storable_refusal_None)
  next
    case (Some row)
    from first_row_mem [OF this] fresh have "note_title row \<noteq> Some new_title" by auto
    with Some r ok True e1 show ?thesis
      by (cases "update_video_info yt video_id new_title description")
        (simp add: update_metadata_def select_first_note_def set_note_title_def
          storable_refusal_None)
  qed
qed

text \<open>
  Claim C10, amended. After a successful remote update, neither the response nor the
  database that \<open>update_metadata\<close> leaves depends on the description submitted. If the video
  id and the title can be stored and notes of the video exist, in a table whose primary key
  identifies its rows, the request succeeds and one of these notes, the one the database
  answers the query with, has the new title and keeps its id, video, content, tags and
  creation time; every other row of the notes table is as it was. If none exists and the
  video id fits the index, the request succeeds and one note is appended with the new
  title, no content and no tags. A video id that cannot be sent, or a title that cannot be
  sent and is on file nowhere, ends the request with a server error; and whenever the
  request ends with an error, the notes table is as it was.
\<close>

theorem update_metadata_mirrors_title_only:
  "resolve_client build authorization db = Inr yt \<Longrightarrow>
   fst (update_video_info yt video_id new_title description) = Inr updated \<Longrightarrow>
   result = fst (update_metadata build pick fits_index video_id new_title description authorization db) \<Longrightarrow>
   db' = fst (snd (update_metadata build pick fits_index video_id new_title description authorization db)) \<Longrightarrow>
   (\<forall>other updated'. fst (update_video_info yt video_id new_title other) = Inr updated' \<longrightarrow>
      fst (update_metadata build pick fits_index video_id new_title other authorization db) = result \<and>
      fst (snd (update_metadata build pick fits_index video_id new_title other authorization db)) = db') \<and>
   (storable video_id \<longrightarrow> storable new_title \<longrightarrow> note_ids_distinct db \<longrightarrow>
    video_id \<in> note_video_id ` set (notes_table db) \<longrightarrow>
      result = Inr (JObj [(ustr ''status'', JStr (ustr ''success'')),
                          (ustr ''message'',
                           JStr (ustr ''Video title and description updated on YouTube.''))]) \<and>
      (\<exists>note \<in> set (notes_table db).
         note_video_id note = video_id \<and>
         first_row pick (filter (\<lambda>n. note_video_id n = video_id) (notes_table db)) = Some note \<and>
         length (notes_table db') = length (notes_table db) \<and>
         (\<forall>i < length (notes_table db).
            (notes_table db ! i \<noteq> note \<longrightarrow> notes_table db' ! i = notes_table db ! i) \<and>
            (notes_table db ! i = note \<longrightarrow>
               note_title (notes_table db' ! i) = Some new_title \<and>
               note_content (notes_table db' ! i) = note_content note \<and>
               note_tags (notes_table db' ! i) = note_tags note \<and>
               note_id (notes_table db' ! i) = note_id note \<and>
               note_video_id (notes_table db' ! i) = note_video_id note \<and>
               note_created_at (notes_table db' ! i) = note_created_at note)))) \<and>
   (storable video_id \<longrightarrow> storable new_title \<longrightarrow> fits_index video_id \<longrightarrow>
    video_id \<notin> note_video_id ` set (notes_table db) \<longrightarrow>
      result = Inr (JObj [(ustr ''status'', JStr (ustr ''success'')),
                          (ustr ''message'',
                           JStr (ustr ''Video title and description updated on YouTube.''))]) \<and>
      (\<exists>n. notes_table db' = notes_table db @ [n] \<and> note_video_id n = video_id \<and>
         note_title n = Some new_title \<and> note_content n = None \<and> note_tags n = Some [])) \<and>
   (\<not> storable video_id \<or>
      \<not> storable new_title \<and> (\<forall>n \<in> set (notes_table db). note_title n \<noteq> Some new_title) \<longrightarrow>
      (\<exists>e. result = Inl (ServerError e))) \<and>
   (\<forall>err. result = Inl err \<longrightarrow> notes_table db' = notes_table db)"
proof -
  assume r: "resolve_client build authorization db = Inr yt"
    and ok: "fst (update_video_info yt video_id new_title description) = Inr updated"
    and result: "result = fst (update_metadata build pick fits_index video_id new_title description authorization db)"
    and db': "db' = fst (snd (update_metadata build pick fits_index video_id new_title description authorization db))"
  let ?rows = "filter (\<lambda>n. note_video_id n = video_id) (notes_table db)"
  have independent: "\<forall>other updated'. fst (update_video_info yt video_id new_title other) = Inr updated' \<longrightarrow>
      fst (update_metadata build pick fits_index video_id new_title other authorization db) = result \<and>
      fst (snd (update_metadata build pick fits_index video_id new_title other authorization db)) = db'"
    using update_metadata_description [OF r ok] result db' by blast
  have found: "result = Inr (JObj [(ustr ''status'', JStr (ustr ''success'')),
                          (ustr ''message'',
                           JStr (ustr ''Video title and description updated on YouTube.''))]) \<and>
      (\<exists>note \<in> set (notes_table db).
         note_video_id note = video_id \<and>
         first_row pick ?rows = Some note \<and>
         length (notes_table db') = length (notes_table db) \<and>
         (\<forall>i < length (notes_table db).
            (notes_table db ! i \<noteq> note \<longrightarrow> notes_table db' ! i = notes_table db ! i) \<and>
            (notes_table db ! i = note \<longrightarrow>
               note_title (notes_table db' ! i) = Some new_title \<and>
               note_content (notes_table db' ! i) = note_content note \<and>
               note_tags (notes_table db' ! i) = note_tags note \<and>
               note_id (notes_table db' ! i) = note_id note \<and>
               note_video_id (notes_table db' ! i) = note_video_id note \<and>
               note_created_at (notes_table db' ! i) = note_created_at note)))"
    if sv: "storable video_id" and st: "storable new_title" and d: "note_ids_distinct db"
      and ex: "video_id \<in> note_video_id ` set (notes_table db)"
  proof -
    from ex have "?rows \<noteq> []" by (auto simp: filter_empty_conv)
    from first_row_nonempty [OF this] obtain row where sel: "first_row pick ?rows = Some row" ..
    from first_row_mem [OF sel] have mem: "row \<in> set (notes_table db)"
      and vid: "note_video_id row = video_id" by auto
    from d have dist: "distinct (map note_id (notes_table db))"
      by (simp add: note_ids_distinct_def)
    note upd = update_metadata_found [OF r ok sv st sel, of fits_index]
    from upd result have res: "result = Inr (JObj [(ustr ''status'', JStr (ustr ''success'')),
        (ustr ''message'', JStr (ustr ''Video title and description updated on YouTube.''))])"
      by simp
    from upd db' have tbl: "notes_table db' =
       (if note_title row = Some new_title then notes_table db
        else map (\<lambda>n. if note_id n = note_id row
                    then n \<lparr> note_title := Some new_title, note_updated_at := Some (now db) \<rparr>
                    else n) (notes_table db))" by simp
    have len: "length (notes_table db') = length (notes_table db)"
      using tbl by simp
    have rows: "(notes_table db ! i \<noteq> row \<longrightarrow> notes_table db' ! i = notes_table db ! i) \<and>
            (notes_table db ! i = row \<longrightarrow>
               note_title (notes_table db' ! i) = Some new_title \<and>
               note_content (notes_table db' ! i) = note_content row \<and>
               note_tags (notes_table db' ! i) = note_tags row \<and>
               note_id (notes_table db' ! i) = note_id row \<and>
               note_video_id (notes_table db' ! i) = note_video_id row \<and>
               note_created_at (notes_table db' ! i) = note_created_at row)"
      if i: "i < length (notes_table db)" for i
    proof (intro conjI impI)
      from i have mem_i: "notes_table db ! i \<in> set (notes_table db)" by simp
      {
        assume "notes_table db ! i \<noteq> row"
        with same_key_same_row [OF dist mem_i mem]
        have "note_id (notes_table db ! i) \<noteq> note_id row" by blast
        with tbl i show "notes_table db' ! i = notes_table db ! i" by simp
      }
      assume "notes_table db ! i = row"
      with tbl i
      show "note_title (notes_table db' ! i) = Some new_title"
        "note_content (notes_table db' ! i) = note_content row"
        "note_tags (notes_table db' ! i) = note_tags row"
        "note_id (notes_table db' ! i) = note_id row"
        "note_video_id (notes_table db' ! i) = note_video_id row"
        "note_created_at (notes_table db' ! i) = note_created_at row"
        by (simp_all split: if_splits)
    qed
    from res mem vid sel len rows show ?thesis by blast
  qed
  have not_found: "result = Inr (JObj [(ustr ''status'', JStr (ustr ''success'')),
                          (ustr ''message'',
                           JStr (ustr ''Video title and description updated on YouTube.''))]) \<and>
      (\<exists>n. notes_table db' = notes_table db @ [n] \<and> note_video_id n = video_id \<and>
         note_title n = Some new_title \<and> note_content n = None \<and> note_tags n = Some [])"
    if sv: "storable video_id" and st: "storable new_title" and fit: "fits_index video_id"
      and nex: "video_id \<notin> note_video_id ` set (notes_table db)"
  proof -
    from nex have "?rows = []" by (auto simp: filter_empty_conv)
    from update_metadata_not_found [where fits_index = fits_index and pick = pick,
        OF r ok sv st fit this] result db'
    show ?thesis by simp
  qed
  have refused: "\<exists>e. result = Inl (ServerError e)"
    if "\<not> storable video_id \<or>
      \<not> storable new_title \<and> (\<forall>n \<in> set (notes_table db). note_title n \<noteq> Some new_title)"
    using update_metadata_refused [OF r ok that, of pick fits_index] result by simp
  have kept: "\<forall>err. result = Inl err \<longrightarrow> notes_table db' = notes_table db"
    using update_metadata_error_keeps_notes [OF r ok] result db' by simp
  from independent found not_found refused kept show ?thesis by blast
qed

lemma update_video_info_client_ok_fst:
  "fst (update_video_info client_ok (ustr ''vid'') (ustr ''new title'') (ustr ''new text'')) =
     Inr (JObj [(ustr ''id'', JStr (ustr ''vid'')),
                 (ustr ''snippet'',
                  JObj [(ustr ''title'', JStr (ustr ''new title'')),
                        (ustr ''categoryId'', JStr (ustr ''22'')),
                        (ustr ''tags'', JArr [JStr (ustr ''a''), JStr (ustr ''b'')]),
                        (ustr ''description'', JStr (ustr ''new text''))])])"
  by (simp add: update_video_info_client_ok)

theorem update_metadata_mirrors_title_only_witness:
  "notes_table (fst (snd (update_metadata build_ok pick_second every_value_fits (ustr ''vid'')
       (ustr ''new title'') (ustr ''new text'') bearer_tok sample_db))) ! 0 = fun_note \<and>
   note_title (notes_table (fst (snd (update_metadata build_ok pick_second every_value_fits
       (ustr ''vid'') (ustr ''new title'') (ustr ''new text'') bearer_tok sample_db))) ! 1) =
     Some (ustr ''new title'') \<and>
   note_content (notes_table (fst (snd (update_metadata build_ok pick_second every_value_fits
       (ustr ''vid'') (ustr ''new title'') (ustr ''new text'') bearer_tok sample_db))) ! 1) =
     Some (ustr ''other'') \<and>
   note_tags (notes_table (fst (snd (update_metadata build_ok pick_second every_value_fits
       (ustr ''vid'') (ustr ''new title'') (ustr ''new text'') bearer_tok sample_db))) ! 1) =
     Some []"
proof -
  let ?db' = "fst (snd (update_metadata build_ok pick_second every_value_fits (ustr ''vid'')
       (ustr ''new title'') (ustr ''new text'') bearer_tok sample_db))"
  have sel: "first_row pick_second
      (filter (\<lambda>n. note_video_id n = ustr ''vid'') (notes_table sample_db)) = Some untagged_note"
    by (simp add: first_row_def pick_second_def sample_db_def fun_note_def untagged_note_def)
  have hyps: "storable (ustr ''vid'')" "storable (ustr ''new title'')"
    "note_ids_distinct sample_db" "ustr ''vid'' \<in> note_video_id ` set (notes_table sample_db)"
    by (simp_all add: storable_def ustr_def note_ids_distinct_def sample_db_def fun_note_def
        untagged_note_def)
  have rows: "notes_table sample_db ! 0 = fun_note" "notes_table sample_db ! 1 = untagged_note"
    "fun_note \<noteq> untagged_note" "length (notes_table sample_db) = 2"
    "note_content untagged_note = Some (ustr ''other'')" "note_tags untagged_note = Some []"
    by (simp_all add: sample_db_def fun_note_def untagged_note_def)
  from update_metadata_mirrors_title_only
    [where pick = pick_second and fits_index = every_value_fits,
     OF resolve_client_ok update_video_info_client_ok_fst refl refl,
     THEN conjunct2, THEN conjunct1, rule_format, OF hyps]
  obtain row where "first_row pick_second
      (filter (\<lambda>n. note_video_id n = ustr ''vid'') (notes_table sample_db)) = Some row"
    and each: "\<forall>i < length (notes_table sample_db).
            (notes_table sample_db ! i \<noteq> row \<longrightarrow> notes_table ?db' ! i = notes_table sample_db ! i) \<and>
            (notes_table sample_db ! i = row \<longrightarrow>
               note_title (notes_table ?db' ! i) = Some (ustr ''new title'') \<and>
               note_content (notes_table ?db' ! i) = note_content row \<and>
               note_tags (notes_table ?db' ! i) = note_tags row \<and>
               note_id (notes_table ?db' ! i) = note_id row \<and>
               note_video_id (notes_table ?db' ! i) = note_video_id row \<and>
               note_created_at (notes_table ?db' ! i) = note_created_at row)"
    by blast
  with sel have "row = untagged_note" by simp
  with each [rule_format, of 0] each [rule_format, of 1] rows show ?thesis
    by simp
qed

lemma update_video_info_client_ok_nul:
  "fst (update_video_info client_ok (ustr ''vid'') nul_title (ustr ''new text'')) =
     Inr (JObj [(ustr ''id'', JStr (ustr ''vid'')),
                 (ustr ''snippet'',
                  JObj [(ustr ''title'', JStr nul_title),
                        (ustr ''categoryId'', JStr (ustr ''22'')),
                        (ustr ''tags'', JArr [JStr (ustr ''a''), JStr (ustr ''b'')]),
                        (ustr ''description'', JStr (ustr ''new text''))])])"
  by (simp add: update_video_info_def client_ok_def sample_video_def Let_def ustr_def)

text \<open>
  Claim C10 as stated fails for a title that holds U+0000. The platform took the update and
  a note of the video is on file, but the commit of the new title raises: the request ends
  with a server error and the title of the note is not overwritten.
\<close>

theorem update_metadata_nul_title_counterexample:
  "fst (update_video_info client_ok (ustr ''vid'') nul_title (ustr ''new text'')) =
     Inr (JObj [(ustr ''id'', JStr (ustr ''vid'')),
                 (ustr ''snippet'',
                  JObj [(ustr ''title'', JStr nul_title),
                        (ustr ''categoryId'', JStr (ustr ''22'')),
                        (ustr ''tags'', JArr [JStr (ustr ''a''), JStr (ustr ''b'')]),
                        (ustr ''description'', JStr (ustr ''new text''))])]) \<and>
   fst (update_metadata build_ok pick_oldest every_value_fits (ustr ''vid'') nul_title
      (ustr ''new text'') bearer_tok sample_db) =
     Inl (ServerError (ValueError (ustr ''A string literal cannot contain NUL (0x00) characters.''))) \<and>
   notes_table (fst (snd (update_metadata build_ok pick_oldest every_value_fits (ustr ''vid'')
      nul_title (ustr ''new text'') bearer_tok sample_db))) = [fun_note, untagged_note] \<and>
   note_title fun_note = Some (ustr ''old title'')"
proof -
  obtain updated sent where
    u: "update_video_info client_ok (ustr ''vid'') nul_title (ustr ''new text'') = (Inr updated, sent)"
    using update_video_info_client_ok_nul
    by (cases "update_video_info client_ok (ustr ''vid'') nul_title (ustr ''new text'')") auto
  have sel: "select_first_note pick_oldest sample_db (ustr ''vid'') = Inr (Some fun_note)"
    by (simp add: select_first_note_def driver_refusal_def storable_def first_row_def
        pick_oldest_def sample_db_def fun_note_def untagged_note_def ustr_def)
  have upd: "set_note_title sample_db fun_note nul_title =
      (Some (ValueError (ustr ''A string literal cannot contain NUL (0x00) characters.'')), sample_db)"
    by (simp add: set_note_title_def driver_refusal_def driver_error_def storable_def
        nul_title_def fun_note_def ustr_def)
  have "update_metadata build_ok pick_oldest every_value_fits (ustr ''vid'') nul_title
      (ustr ''new text'') bearer_tok sample_db =
     (Inl (ServerError (ValueError (ustr ''A string literal cannot contain NUL (0x00) characters.''))),
      sample_db, sent)"
    by (simp add: update_metadata_def resolve_client_ok u sel upd)
  then show ?thesis
    using update_video_info_client_ok_nul
    by (simp add: sample_db_def fun_note_def)
qed

subsection \<open>Listing notes\<close>

text \<open>
  What the code computes with \<^verbatim>\<open>strip\<close> and \<^verbatim>\<open>lower\<close> is the comparison of the
  specification.
\<close>

lemma py_strip_trimmed: "py_strip s = trimmed s"
proof -
  let ?m = "dropWhile py_isspace s"
  have m: "?m = drop (length (takeWhile py_isspace s)) s"
    by (rule dropWhile_eq_drop)
  have strip: "py_strip s = take (length ?m - length (takeWhile py_isspace (rev ?m))) ?m"
    by (simp add: py_strip_def dropWhile_eq_drop [of py_isspace "rev ?m"] rev_drop)
  show ?thesis
  proof (cases "?m = []")
    case True
    have "py_strip s = rev (dropWhile py_isspace (rev ?m))"
      by (simp only: py_strip_def)
    also have "\<dots> = []" unfolding True by simp
    finally have "py_strip s = []" .
    moreover have "trimmed s =
        take (length s - length (takeWhile py_isspace s) - length (takeWhile py_isspace (rev s))) ?m"
      unfolding trimmed_def Let_def m [symmetric] ..
    then have "trimmed s = []" unfolding True by simp
    ultimately show ?thesis by simp
  next
    case False
    then have "\<not> py_isspace (hd ?m)" by (rule hd_dropWhile)
    moreover from False have "hd ?m \<in> set (rev ?m)" by simp
    moreover have "rev s = rev ?m @ rev (takeWhile py_isspace s)"
      by (metis rev_append takeWhile_dropWhile_id)
    ultimately have "takeWhile py_isspace (rev s) = takeWhile py_isspace (rev ?m)"
      by (simp add: takeWhile_append1)
    moreover have "length ?m = length s - length (takeWhile py_isspace s)"
      using m by (metis length_drop)
    ultimately show ?thesis
      using strip m by (simp add: trimmed_def Let_def)
  qed
qed

lemma ascii_lower_eq: "ascii_lower a = ascii_lower b \<longleftrightarrow> equal_ignoring_case a b"
proof (induction a arbitrary: b)
  case Nil
  then show ?case by (simp add: ascii_lower_def equal_ignoring_case_def)
next
  case (Cons c cs)
  show ?case
  proof (cases b)
    case Nil
    then show ?thesis by (simp add: ascii_lower_def equal_ignoring_case_def)
  next
    case (Cons d ds)
    have "(if 65 \<le> c \<and> c \<le> 90 then c + 32 else c) = (if 65 \<le> d \<and> d \<le> 90 then d + 32 else d) \<longleftrightarrow>
        same_letter c d"
      by (auto simp: same_letter_def)
    with Cons Cons.IH [of ds] show ?thesis
      by (simp add: ascii_lower_def equal_ignoring_case_def)
  qed
qed

lemma compared_same_tag:
  "str_lower unicode_lower (py_strip x) = str_lower unicode_lower (py_strip t) \<longleftrightarrow>
     same_tag unicode_lower x t"
  by (simp add: py_strip_trimmed same_tag_def str_lower_def ascii_lower_eq)

lemma list_ex_has_tag:
  "list_ex (\<lambda>x. str_lower unicode_lower (py_strip x) = str_lower unicode_lower (py_strip t))
     (tags_or_empty n) \<longleftrightarrow> has_tag unicode_lower n t"
  by (cases "note_tags n") (simp_all add: tags_or_empty_def has_tag_def compared_same_tag)

lemma newest_first_order_by: "newest_first (order_by_created_at_desc ns)"
proof -
  have "sorted (map (\<lambda>n. - int (note_created_at n)) (sort_key (\<lambda>n. - int (note_created_at n)) ns))"
    by (rule sorted_sort_key)
  then show ?thesis
    by (simp add: newest_first_def order_by_created_at_desc_def sorted_map)
qed

lemma newest_first_filter: "newest_first ns \<Longrightarrow> newest_first (filter P ns)"
  by (simp add: newest_first_def sorted_wrt_filter)

lemma video_id_refusal_Some:
  "\<not> storable video_id \<Longrightarrow> driver_refusal (video_id # params) = Some (driver_error video_id)"
  by (simp add: driver_refusal_def)

lemma get_notes_tag_only:
  "storable video_id \<Longrightarrow> t \<noteq> [] \<Longrightarrow>
   get_notes unicode_lower ilike video_id None (Some t) db =
     Inr (filter (\<lambda>n. has_tag unicode_lower n t)
       (order_by_created_at_desc (filter (\<lambda>n. note_video_id n = video_id) (notes_table db))))"
  by (simp add: get_notes_def searching_def storable_refusal_None Let_def list_ex_has_tag)

lemma get_notes_no_tag:
  "storable video_id \<Longrightarrow> tag = None \<or> tag = Some [] \<Longrightarrow>
   get_notes unicode_lower ilike video_id None tag db =
     Inr (order_by_created_at_desc (filter (\<lambda>n. note_video_id n = video_id) (notes_table db)))"
  by (auto simp: get_notes_def searching_def storable_refusal_None Let_def)

lemma get_notes_newest_first:
  "get_notes unicode_lower ilike video_id search tag db = Inr ns \<Longrightarrow> newest_first ns"
  by (auto simp: get_notes_def Let_def newest_first_order_by newest_first_filter
      split: option.splits if_splits)

text \<open>
  Claim C7, amended. Whatever the filters, a list that \<open>get_notes\<close> returns is ordered most
  recent first. For a video id that can be sent to the database and a tag that is not the
  empty string (and no search), it returns exactly the notes of the video that have the
  tag, compared trimmed and ignoring case, each as often as the table holds it; a note
  whose tag set is absent or empty is not among them. The empty tag is no filter: the
  result is that of the request without a tag, all notes of the video. A video id that
  cannot be sent ends the request with a server error.
\<close>

theorem get_notes_tag_filter:
  "(\<forall>ns. get_notes unicode_lower ilike video_id search tag db = Inr ns \<longrightarrow> newest_first ns) \<and>
   (storable video_id \<longrightarrow> t \<noteq> [] \<longrightarrow>
      (\<exists>ns. get_notes unicode_lower ilike video_id None (Some t) db = Inr ns \<and>
         mset ns = filter_mset (\<lambda>n. note_video_id n = video_id \<and> has_tag unicode_lower n t)
                     (mset (notes_table db)) \<and>
         (\<forall>n \<in> set ns. note_tags n \<noteq> None \<and> note_tags n \<noteq> Some []))) \<and>
   (storable video_id \<longrightarrow>
      (\<exists>ns. get_notes unicode_lower ilike video_id None (Some []) db = Inr ns \<and>
         get_notes unicode_lower ilike video_id None None db = Inr ns \<and>
         mset ns = filter_mset (\<lambda>n. note_video_id n = video_id) (mset (notes_table db)))) \<and>
   (\<not> storable video_id \<longrightarrow>
      (\<exists>e. get_notes unicode_lower ilike video_id search tag db = Inl (ServerError e)))"
proof (intro conjI impI allI)
  fix ns
  assume "get_notes unicode_lower ilike video_id search tag db = Inr ns"
  then show "newest_first ns" by (rule get_notes_newest_first)
next
  assume sv: "storable video_id" and t: "t \<noteq> []"
  let ?ns = "filter (\<lambda>n. has_tag unicode_lower n t)
       (order_by_created_at_desc (filter (\<lambda>n. note_video_id n = video_id) (notes_table db)))"
  have "mset ?ns = filter_mset (\<lambda>n. note_video_id n = video_id \<and> has_tag unicode_lower n t)
                     (mset (notes_table db))"
    by (simp add: order_by_created_at_desc_def filter_filter_mset)
  moreover have "\<forall>n \<in> set ?ns. note_tags n \<noteq> None \<and> note_tags n \<noteq> Some []"
    by (auto simp: has_tag_def split: option.splits)
  ultimately show "\<exists>ns. get_notes unicode_lower ilike video_id None (Some t) db = Inr ns \<and>
         mset ns = filter_mset (\<lambda>n. note_video_id n = video_id \<and> has_tag unicode_lower n t)
                     (mset (notes_table db)) \<and>
         (\<forall>n \<in> set ns. note_tags n \<noteq> None \<and> note_tags n \<noteq> Some [])"
    using get_notes_tag_only [OF sv t] by blast
next
  assume sv: "storable video_id"
  then show "\<exists>ns. get_notes unicode_lower ilike video_id None (Some []) db = Inr ns \<and>
         get_notes unicode_lower ilike video_id None None db = Inr ns \<and>
         mset ns = filter_mset (\<lambda>n. note_video_id n = video_id) (mset (notes_table db))"
    by (simp add: get_notes_no_tag order_by_created_at_desc_def)
next
  assume "\<not> storable video_id"
  then show "\<exists>e. get_notes unicode_lower ilike video_id search tag db = Inl (ServerError e)"
    by (simp add: get_notes_def video_id_refusal_Some)
qed

lemma fun_note_has_tag: "has_tag unicode_unchanged fun_note (ustr '' fun '')"
  by (simp add: has_tag_def same_tag_def trimmed_def is_ascii_def equal_ignoring_case_def
      same_letter_def fun_note_def py_isspace_def ustr_def Let_def)

lemma untagged_note_has_no_tag: "\<not> has_tag unicode_lower untagged_note t"
  by (simp add: has_tag_def untagged_note_def)

theorem get_notes_tag_filter_witness:
  "get_notes unicode_unchanged ilike_nothing (ustr ''vid'') None (Some (ustr '' fun '')) sample_db =
     Inr [fun_note]"
proof -
  have "storable (ustr ''vid'')" "ustr '' fun '' \<noteq> []"
    by (simp_all add: storable_def ustr_def)
  with get_notes_tag_filter [of unicode_unchanged ilike_nothing "ustr ''vid''" None None sample_db
      "ustr '' fun ''"]
  obtain ns where
    ns: "get_notes unicode_unchanged ilike_nothing (ustr ''vid'') None (Some (ustr '' fun '')) sample_db =
      Inr ns"
    and "mset ns =
      filter_mset (\<lambda>n. note_video_id n = ustr ''vid'' \<and> has_tag unicode_unchanged n (ustr '' fun ''))
        (mset (notes_table sample_db))"
    by blast
  moreover have "filter_mset (\<lambda>n. note_video_id n = ustr ''vid'' \<and>
      has_tag unicode_unchanged n (ustr '' fun '')) (mset (notes_table sample_db)) = {#fun_note#}"
    using fun_note_has_tag untagged_note_has_no_tag [of unicode_unchanged]
    by (simp add: sample_db_def) (simp add: fun_note_def)
  ultimately have "ns = [fun_note]" by simp
  with ns show ?thesis by simp
qed

text \<open>A video id that holds U+0000: the query raises.\<close>

lemma get_notes_nul_video_id:
  "get_notes unicode_unchanged ilike_nothing [118, 0] None None sample_db =
     Inl (ServerError (ValueError (ustr ''A string literal cannot contain NUL (0x00) characters.'')))"
  by (simp add: get_notes_def searching_def driver_refusal_def driver_error_def storable_def)

text \<open>
  Claim C7 as stated fails for the empty tag string, which the handler treats as no filter:
  the note whose tag set is empty is returned.
\<close>

theorem get_notes_empty_tag_counterexample:
  "get_notes unicode_unchanged ilike_nothing (ustr ''vid'') None (Some []) sample_db =
     Inr [untagged_note, fun_note] \<and>
   note_tags untagged_note = Some []"
  by (simp add: get_notes_def searching_def driver_refusal_def storable_def ustr_def Let_def
      sample_db_def order_by_created_at_desc_def)
    (simp add: fun_note_def untagged_note_def ustr_def)

end
